theory Spec2Isabelle
  imports Main
begin

section \<open>JavaScript values and strings\<close>

text \<open>
  The bridge (\<^verbatim>\<open>src/bin/mcp-http-bridge.mjs\<close>) handles values produced by
  \<^verbatim>\<open>JSON.parse\<close>. They are modelled by the datatype \<open>json\<close>. The JavaScript
  value \<^verbatim>\<open>undefined\<close> is \<open>None\<close> of \<open>json option\<close>. Strings are lists of 8-bit code
  units.

  A number is kept as the text that JavaScript prints for it (\<^verbatim>\<open>String(n)\<close>), such as
  \<^verbatim>\<open>-32000\<close>, \<^verbatim>\<open>1.5\<close>, \<^verbatim>\<open>1e+21\<close> or \<^verbatim>\<open>Infinity\<close>. The text determines the number up to
  the sign of zero, and the bridge does nothing with a number but print it and test it
  for truthiness, where 0 and -0 behave alike.
\<close>

datatype json =
    JNull
  | JBool bool
  | JNum string
  | JStr string
  | JArr "json list"
  | JObj "(string \<times> json) list"

text \<open>
  Property read \<^verbatim>\<open>v.k\<close> on a value that is not \<^verbatim>\<open>null\<close>. Only objects carry the
  properties the bridge reads (jsonrpc, id, method, code, message, error, data, status);
  on booleans, numbers, strings and arrays these reads give \<^verbatim>\<open>undefined\<close>. Reading a
  property of \<^verbatim>\<open>null\<close> throws and is handled where the source can meet it.
\<close>

fun js_get :: "json \<Rightarrow> string \<Rightarrow> json option" where
  "js_get (JObj kvs) k = map_of kvs k"
| "js_get _ k = None"

text \<open>JavaScript truthiness, as tested by \<^verbatim>\<open>if (v)\<close>, \<^verbatim>\<open>v && w\<close> and \<^verbatim>\<open>v || w\<close>.\<close>

fun truthy :: "json option \<Rightarrow> bool" where
  "truthy None = False"
| "truthy (Some JNull) = False"
| "truthy (Some (JBool b)) = b"
| "truthy (Some (JNum n)) = (n \<noteq> ''0'' \<and> n \<noteq> ''NaN'')"
| "truthy (Some (JStr s)) = (s \<noteq> [])"
| "truthy (Some (JArr xs)) = True"
| "truthy (Some (JObj kvs)) = True"

text \<open>Truthiness of a value that is a string or \<^verbatim>\<open>null\<close>/\<^verbatim>\<open>undefined\<close>.\<close>

fun str_truthy :: "string option \<Rightarrow> bool" where
  "str_truthy None = False"
| "str_truthy (Some s) = (s \<noteq> [])"

definition js_or :: "string option \<Rightarrow> string option \<Rightarrow> string option" where
  "js_or a b = (if str_truthy a then a else b)"

subsection \<open>Decimal printing and string conversion\<close>

definition digit_char :: "nat \<Rightarrow> char" where
  "digit_char d = ''0123456789'' ! (d mod 10)"

fun show_nat :: "nat \<Rightarrow> string" where
  "show_nat n = (if n < 10 then [digit_char n] else show_nat (n div 10) @ [digit_char (n mod 10)])"

declare show_nat.simps [simp del]

fun join_with :: "string \<Rightarrow> string list \<Rightarrow> string" where
  "join_with sep [] = []"
| "join_with sep [x] = x"
| "join_with sep (x # y # ys) = x @ sep @ join_with sep (y # ys)"

text \<open>
  The conversion to a string performed by template literals, by \<^verbatim>\<open>+\<close> with a string
  and by \<^verbatim>\<open>new Error(v)\<close>. It throws a TypeError, here \<open>None\<close>, on an object that
  has a key \<^verbatim>\<open>toString\<close>: the value under that key is no function and hides the
  inherited method, and the inherited \<^verbatim>\<open>valueOf\<close> returns no primitive. An array is
  joined with commas, \<^verbatim>\<open>null\<close> elements giving the empty string, and throws when the
  conversion of an element does.
\<close>

fun ToString :: "json \<Rightarrow> string option" where
  "ToString JNull = Some ''null''"
| "ToString (JBool b) = Some (if b then ''true'' else ''false'')"
| "ToString (JNum n) = Some n"
| "ToString (JStr s) = Some s"
| "ToString (JArr xs) =
     map_option (join_with '','') (those (map (\<lambda>x. if x = JNull then Some [] else ToString x) xs))"
| "ToString (JObj kvs) = (if map_of kvs ''toString'' = None then Some ''[object Object]'' else None)"

subsection \<open>String operations\<close>

text \<open>The white space and line terminators removed by \<^verbatim>\<open>String.prototype.trim\<close>
  that fit a code unit below 256.\<close>

definition is_space :: "char \<Rightarrow> bool" where
  "is_space c = (c \<in> set [CHR 0x09, CHR 0x0A, CHR 0x0B, CHR 0x0C, CHR 0x0D, CHR 0x20, CHR 0xA0])"

definition trim :: "string \<Rightarrow> string" where
  "trim s = rev (dropWhile is_space (rev (dropWhile is_space s)))"

text \<open>\<^verbatim>\<open>s.split('\n')\<close>: the empty string gives one empty piece.\<close>

fun split_newline :: "string \<Rightarrow> string list" where
  "split_newline [] = [[]]"
| "split_newline (c # cs) =
     (if c = CHR 0x0A then [] # split_newline cs
      else (case split_newline cs of
              [] \<Rightarrow> [[c]]
            | l # ls \<Rightarrow> (c # l) # ls))"

text \<open>\<^verbatim>\<open>s.substring(0, n)\<close>.\<close>

definition substring0 :: "nat \<Rightarrow> string \<Rightarrow> string" where
  "substring0 n s = take n s"

section \<open>Platform, configuration and state\<close>

text \<open>
  \<^verbatim>\<open>JSON.parse\<close> and the byte length of a serialised request are built into Node.js
  and are parameters of the model. \<open>JSON_parse\<close> returns \<open>Inl m\<close> when
  \<^verbatim>\<open>JSON.parse\<close> throws an error with message \<open>m\<close>.
\<close>

record platform =
  JSON_parse :: "string \<Rightarrow> string + json"
  content_length :: "json \<Rightarrow> nat"

text \<open>The configuration read from the environment at start-up.\<close>

record config =
  BEARER_TOKEN :: "string option"
  customHeaders :: "string \<rightharpoonup> json"

definition baseHeaders :: "config \<Rightarrow> (string \<rightharpoonup> json)" where
  "baseHeaders cfg =
     (if str_truthy (BEARER_TOKEN cfg)
      then [''Content-Type'' \<mapsto> JStr ''application/json'',
            ''Authorization'' \<mapsto> JStr (''Bearer '' @ the (BEARER_TOKEN cfg))]
      else [''Content-Type'' \<mapsto> JStr ''application/json''])"

definition defaultHeaders :: "config \<Rightarrow> (string \<rightharpoonup> json)" where
  "defaultHeaders cfg = baseHeaders cfg ++ customHeaders cfg"

text \<open>An HTTP POST as handed to \<^verbatim>\<open>httpRequest\<close>: its headers and the value whose
  serialisation is the body.\<close>

record http_request =
  headers :: "string \<rightharpoonup> json"
  body :: json

text \<open>A response as the \<^verbatim>\<open>end\<close> handler sees it: status code, the header object of
  Node (names in lower case) and the buffered body.\<close>

record http_response =
  res_statusCode :: nat
  res_headers :: "string \<rightharpoonup> string"
  res_data :: string

text \<open>How one HTTP round trip ends: a response, the request's \<^verbatim>\<open>error\<close> event
  (with the error's message) or its \<^verbatim>\<open>timeout\<close> event.\<close>

datatype http_outcome =
    Response http_response
  | RequestError string
  | RequestTimeout

text \<open>The upstream server and the network: the outcome of a request, given all
  requests sent so far (the last one being the request itself).\<close>

type_synonym upstream = "http_request list \<Rightarrow> http_outcome"

text \<open>A line written to standard output: a response line forwarded as received, or the
  serialisation \<^verbatim>\<open>JSON.stringify(v)\<close> of a value built by the bridge.\<close>

datatype out_line = Raw string | Stringified json

text \<open>The module's mutable variables and its effects: the session variables, the lines
  written to standard output and the HTTP requests sent, both in order.\<close>

record bridge =
  sessionId :: "string option"
  isInitialized :: bool
  stdout :: "out_line list"
  sent :: "http_request list"

text \<open>The \<^verbatim>\<open>Error\<close> objects that reject a request's promise.\<close>

record js_error =
  message :: string
  statusCode :: "nat option"
  errorCode :: "json option"

text \<open>The value a request's promise resolves to.\<close>

datatype resolved = Null | Data string | Undefined

section \<open>Writing errors\<close>

text \<open>\<^verbatim>\<open>sendError(code, message, id)\<close>: one line on standard output, the serialised
  object \<^verbatim>\<open>{jsonrpc: '2.0', error: {code, message}, id}\<close>.\<close>

definition error_response :: "json \<Rightarrow> string \<Rightarrow> json \<Rightarrow> json" where
  "error_response code msg ident =
     JObj [(''jsonrpc'', JStr ''2.0''),
           (''error'', JObj [(''code'', code), (''message'', JStr msg)]),
           (''id'', ident)]"

definition sendError :: "json \<Rightarrow> string \<Rightarrow> json \<Rightarrow> bridge \<Rightarrow> bridge" where
  "sendError code msg ident w = w\<lparr>stdout := stdout w @ [Stringified (error_response code msg ident)]\<rparr>"

text \<open>\<^verbatim>\<open>r.id !== undefined ? r.id : null\<close>.\<close>

definition id_or_null :: "json \<Rightarrow> json" where
  "id_or_null r = (case js_get r ''id'' of None \<Rightarrow> JNull | Some i \<Rightarrow> i)"

text \<open>\<^verbatim>\<open>error.errorCode || -32000\<close>.\<close>

definition errorCode_or_default :: "js_error \<Rightarrow> json" where
  "errorCode_or_default e = (if truthy (errorCode e) then the (errorCode e) else JNum ''-32000'')"

section \<open>One HTTP call: makeRequest\<close>

definition isInitialize :: "json \<Rightarrow> bool" where
  "isInitialize jsonRequest = (js_get jsonRequest ''method'' = Some (JStr ''initialize''))"

text \<open>The headers of the outgoing request (source lines 168 to 179).\<close>

definition request_headers :: "platform \<Rightarrow> config \<Rightarrow> json \<Rightarrow> bridge \<Rightarrow> (string \<rightharpoonup> json)" where
  "request_headers P cfg jsonRequest w =
     (let hdrs = (defaultHeaders cfg)(''Content-Length'' \<mapsto> JNum (show_nat (content_length P jsonRequest)))
      in if \<not> isInitialize jsonRequest \<and> str_truthy (sessionId w)
         then hdrs(''Mcp-Session-Id'' \<mapsto> JStr (the (sessionId w)))
         else hdrs)"

definition outgoing :: "platform \<Rightarrow> config \<Rightarrow> json \<Rightarrow> bridge \<Rightarrow> http_request" where
  "outgoing P cfg jsonRequest w = \<lparr>headers = request_headers P cfg jsonRequest w, body = jsonRequest\<rparr>"

text \<open>The session header of a response, read under three spellings (lines 198 to 200).\<close>

definition sessionHeader :: "http_response \<Rightarrow> string option" where
  "sessionHeader res =
     js_or (res_headers res ''mcp-session-id'')
       (js_or (res_headers res ''Mcp-Session-Id'') (res_headers res ''MCP-Session-ID''))"

text \<open>The response callback before the body arrives (lines 202 to 206).\<close>

definition on_response :: "bool \<Rightarrow> http_response \<Rightarrow> bridge \<Rightarrow> bridge" where
  "on_response is_init res w =
     (if str_truthy (sessionHeader res) \<and> is_init
      then w\<lparr>sessionId := sessionHeader res, isInitialized := True\<rparr>
      else w)"

text \<open>Whether \<^verbatim>\<open>JSON.parse\<close> accepts a text.\<close>

definition is_json :: "platform \<Rightarrow> string \<Rightarrow> bool" where
  "is_json P l = (case JSON_parse P l of Inr v \<Rightarrow> True | Inl e \<Rightarrow> False)"

text \<open>The loop over the lines of a successful body (lines 240 to 248): a line that
  parses is written as it is, another one is skipped.\<close>

fun forward_lines :: "platform \<Rightarrow> string list \<Rightarrow> bridge \<Rightarrow> bridge" where
  "forward_lines P [] w = w"
| "forward_lines P (l # ls) w =
     (case JSON_parse P l of
        Inr v \<Rightarrow> forward_lines P ls (w\<lparr>stdout := stdout w @ [Raw l]\<rparr>)
      | Inl e \<Rightarrow> forward_lines P ls w)"

text \<open>A response with status 200 to 299 (lines 227 to 250).\<close>

definition on_success :: "platform \<Rightarrow> string \<Rightarrow> bridge \<Rightarrow> resolved \<times> bridge" where
  "on_success P dat w =
     (let trimmedData = trim dat
      in if trimmedData = [] then (Null, w)
         else (let lines = filter (\<lambda>l. trim l \<noteq> []) (split_newline trimmedData)
               in (Data dat, forward_lines P lines w)))"

text \<open>\<^verbatim>\<open>errorResponse.data?.status\<close>.\<close>

definition data_status :: "json \<Rightarrow> json option" where
  "data_status errorResponse =
     (case js_get errorResponse ''data'' of
        None \<Rightarrow> None
      | Some JNull \<Rightarrow> None
      | Some d \<Rightarrow> js_get d ''status'')"

text \<open>
  The \<^verbatim>\<open>try\<close> block after the body has been parsed to a value other than
  \<^verbatim>\<open>null\<close> (lines 259 to 283). It works on the variables \<^verbatim>\<open>errorMessage\<close>, still a
  JavaScript value here, and \<^verbatim>\<open>errorCode\<close>. \<open>Inr\<close> holds them when the block runs to
  its end, \<open>Inl\<close> holds them as they are when a template literal throws.
\<close>

definition error_from_json :: "nat \<Rightarrow> json \<Rightarrow> (json \<times> json) + (json \<times> json)" where
  "error_from_json status errorResponse =
     (let dflt = JStr (''HTTP '' @ show_nat status);
          chosen =
            (if truthy (js_get errorResponse ''code'') \<and> truthy (js_get errorResponse ''message'')
             then (if js_get errorResponse ''code'' = Some (JStr ''rest_forbidden'')
                   then (if status = 401
                         then Inr (JStr ''Authentication failed: Invalid or expired JWT token'', JNum ''-32000'')
                         else (case ToString (the (js_get errorResponse ''message'')) of
                                 None \<Rightarrow> Inl (the (js_get errorResponse ''message''), JNum ''-32000'')
                               | Some m \<Rightarrow> Inr (JStr (''Forbidden: '' @ m), JNum ''-32000'')))
                   else Inr (the (js_get errorResponse ''message''), JNum ''-32000''))
             else if truthy (js_get errorResponse ''error'')
             then (let err = the (js_get errorResponse ''error'')
                   in Inr (if truthy (js_get err ''message'') then the (js_get err ''message'') else dflt,
                           if truthy (js_get err ''code'') then the (js_get err ''code'') else JNum ''-32000''))
             else if truthy (js_get errorResponse ''message'')
             then Inr (the (js_get errorResponse ''message''), JNum ''-32000'')
             else Inr (dflt, JNum ''-32000''))
      in case chosen of
           Inl thrown \<Rightarrow> Inl thrown
         | Inr (errorMessage, code) \<Rightarrow>
             (if truthy (data_status errorResponse)
              then (case ToString errorMessage of
                      None \<Rightarrow> Inl (errorMessage, code)
                    | Some m \<Rightarrow>
                        (case ToString (the (data_status errorResponse)) of
                           None \<Rightarrow> Inl (errorMessage, code)
                         | Some s \<Rightarrow> Inr (JStr (m @ '' (HTTP '' @ s @ '')''), code)))
              else Inr (errorMessage, code)))"

text \<open>
  The \<^verbatim>\<open>catch\<close> block (lines 284 to 290), entered with the variables as they are:
  it appends the start of the raw body to the message. \<open>None\<close> says that the
  conversion of the message throws here, where nothing catches it.
\<close>

fun catch_block :: "string \<Rightarrow> json \<times> json \<Rightarrow> (json \<times> json) option" where
  "catch_block dat (errorMessage, code) =
     (let preview = trim (substring0 200 dat)
      in if preview \<noteq> []
         then (case ToString errorMessage of
                 None \<Rightarrow> None
               | Some m \<Rightarrow> Some (JStr (m @ '': '' @ preview), code))
         else Some (errorMessage, code))"

text \<open>The message and code of a body that is no JSON, or is \<^verbatim>\<open>null\<close> (whose property
  read throws): the \<^verbatim>\<open>catch\<close> block entered with the initial values.\<close>

definition error_from_text :: "nat \<Rightarrow> string \<Rightarrow> (json \<times> json) option" where
  "error_from_text status dat = catch_block dat (JStr (''HTTP '' @ show_nat status), JNum ''-32000'')"

text \<open>
  How a call fails: its promise is rejected with an \<^verbatim>\<open>Error\<close>, or an exception
  escapes the handler of the response's \<^verbatim>\<open>end\<close> event, where nothing catches it, and
  ends the process.
\<close>

datatype failure = Rejected js_error | Crashed

text \<open>\<^verbatim>\<open>new Error(errorMessage)\<close> and the rejection (lines 292 to 295); the conversion of
  the message can throw.\<close>

fun rejection :: "nat \<Rightarrow> json \<times> json \<Rightarrow> failure" where
  "rejection status (errorMessage, code) =
     (case ToString errorMessage of
        None \<Rightarrow> Crashed
      | Some m \<Rightarrow> Rejected \<lparr>message = m, statusCode = Some status, errorCode = Some code\<rparr>)"

text \<open>A response with a status outside 200 to 299 (lines 251 to 296).\<close>

definition http_error :: "platform \<Rightarrow> http_response \<Rightarrow> failure" where
  "http_error P res =
     (let settled =
            (case JSON_parse P (res_data res) of
               Inl e \<Rightarrow> error_from_text (res_statusCode res) (res_data res)
             | Inr JNull \<Rightarrow> error_from_text (res_statusCode res) (res_data res)
             | Inr errorResponse \<Rightarrow>
                 (case error_from_json (res_statusCode res) errorResponse of
                    Inr done \<Rightarrow> Some done
                  | Inl thrown \<Rightarrow> catch_block (res_data res) thrown))
      in case settled of
           None \<Rightarrow> Crashed
         | Some vars \<Rightarrow> rejection (res_statusCode res) vars)"

text \<open>The synthetic request of the recovery (lines 324 to 335).\<close>

definition initRequest :: json where
  "initRequest =
     JObj [(''jsonrpc'', JStr ''2.0''),
           (''method'', JStr ''initialize''),
           (''params'', JObj [(''protocolVersion'', JStr ''2024-11-05''),
                              (''clientInfo'', JObj [(''name'', JStr ''mcp-http-bridge''),
                                                     (''version'', JStr ''1.0.0'')])]),
           (''id'', JNum ''0'')]"

text \<open>The \<^verbatim>\<open>catch\<close> block of \<^verbatim>\<open>reinitializeAndRetry\<close> (lines 343 to 355): it writes an
  error for the original request and throws the error again.\<close>

definition recovery_failed :: "json \<Rightarrow> js_error \<Rightarrow> bridge \<Rightarrow> (failure + resolved) \<times> bridge" where
  "recovery_failed originalRequest e w =
     (Inl (Rejected e),
      sendError (errorCode_or_default e)
        (''Session expired and re-initialization failed: '' @ message e)
        (id_or_null originalRequest) w)"

text \<open>
  \<^verbatim>\<open>makeRequest\<close> and \<^verbatim>\<open>reinitializeAndRetry\<close> call each other without a bound in
  the source. The first argument is fuel: \<open>None\<close> says that the fuel did not suffice for
  the promise to settle. \<open>Inr\<close> is a resolved promise, \<open>Inl\<close> a failure: a rejected
  promise, or the end of the process, after which nothing more runs.
\<close>

fun makeRequest ::
    "nat \<Rightarrow> platform \<Rightarrow> config \<Rightarrow> upstream \<Rightarrow> json \<Rightarrow> bridge \<Rightarrow> ((failure + resolved) \<times> bridge) option"
  and reinitializeAndRetry ::
    "nat \<Rightarrow> platform \<Rightarrow> config \<Rightarrow> upstream \<Rightarrow> json \<Rightarrow> bridge \<Rightarrow> ((failure + resolved) \<times> bridge) option"
where
  "makeRequest 0 P cfg up jsonRequest w = None"
| "makeRequest (Suc n) P cfg up jsonRequest w =
     (let w1 = w\<lparr>sent := sent w @ [outgoing P cfg jsonRequest w]\<rparr>
      in case up (sent w1) of
           RequestError m \<Rightarrow>
             Some (Inl (Rejected \<lparr>message = m, statusCode = None, errorCode = None\<rparr>), w1)
         | RequestTimeout \<Rightarrow>
             Some (Inl (Rejected \<lparr>message = ''Request timeout'', statusCode = None, errorCode = None\<rparr>), w1)
         | Response res \<Rightarrow>
             (let w2 = on_response (isInitialize jsonRequest) res w1
              in if res_statusCode res = 404 \<and> str_truthy (sessionId w2) \<and> \<not> isInitialize jsonRequest
                 then reinitializeAndRetry n P cfg up jsonRequest (w2\<lparr>sessionId := None, isInitialized := False\<rparr>)
                 else if 200 \<le> res_statusCode res \<and> res_statusCode res < 300
                 then (case on_success P (res_data res) w2 of (r, w3) \<Rightarrow> Some (Inr r, w3))
                 else Some (Inl (http_error P res), w2)))"
| "reinitializeAndRetry n P cfg up originalRequest w =
     (case makeRequest n P cfg up initRequest w of
        None \<Rightarrow> None
      | Some (Inl Crashed, w1) \<Rightarrow> Some (Inl Crashed, w1)
      | Some (Inl (Rejected e), w1) \<Rightarrow> Some (recovery_failed originalRequest e w1)
      | Some (Inr r, w1) \<Rightarrow>
          (case makeRequest n P cfg up originalRequest w1 of
             None \<Rightarrow> None
           | Some (Inl Crashed, w2) \<Rightarrow> Some (Inl Crashed, w2)
           | Some (Inl (Rejected e), w2) \<Rightarrow> Some (recovery_failed originalRequest e w2)
           | Some (Inr r', w2) \<Rightarrow> Some (Inr Undefined, w2)))"

section \<open>One input line\<close>

text \<open>What the \<^verbatim>\<open>line\<close> handler leaves behind: the line is handled, or an exception
  escapes the handler or the handler of a response and ends the process.\<close>

datatype line_result = Handled bridge | Uncaught bridge

text \<open>The \<^verbatim>\<open>catch\<close> handler of the request branch (lines 396 to 406).\<close>

definition request_failed :: "json \<Rightarrow> js_error \<Rightarrow> bridge \<Rightarrow> bridge" where
  "request_failed jsonRequest e w =
     sendError (errorCode_or_default e)
       (if message e \<noteq> [] then message e else ''Request failed'')
       (id_or_null jsonRequest) w"

text \<open>
  The handler of one input line (lines 361 to 413). The promise of \<^verbatim>\<open>makeRequest\<close> is
  run to its end before the next line is looked at; \<open>None\<close> says that the fuel given to
  \<open>makeRequest\<close> did not suffice. Debug output goes to standard error only and is left out.
\<close>

definition on_line :: "nat \<Rightarrow> platform \<Rightarrow> config \<Rightarrow> upstream \<Rightarrow> string \<Rightarrow> bridge \<Rightarrow> line_result option" where
  "on_line n P cfg up line w =
     (if trim line = [] then Some (Handled w)
      else case JSON_parse P line of
        Inl e \<Rightarrow> Some (Handled (sendError (JNum ''-32700'') (''Parse error: '' @ e) JNull w))
      | Inr JNull \<Rightarrow> Some (Uncaught w)
      | Inr jsonRequest \<Rightarrow>
          if js_get jsonRequest ''jsonrpc'' \<noteq> Some (JStr ''2.0'')
          then Some (Handled (sendError (JNum ''-32600'') (''Invalid Request: jsonrpc must be '' @ [CHR 0x22] @ ''2.0'' @ [CHR 0x22])
                                (id_or_null jsonRequest) w))
          else if js_get jsonRequest ''id'' = None \<and> truthy (js_get jsonRequest ''method'')
          then (case makeRequest n P cfg up jsonRequest w of
                  None \<Rightarrow> None
                | Some (Inl Crashed, w') \<Rightarrow> Some (Uncaught w')
                | Some (Inl (Rejected e), w') \<Rightarrow> Some (Handled w')
                | Some (Inr r, w') \<Rightarrow> Some (Handled w'))
          else if truthy (js_get jsonRequest ''method'') \<and> js_get jsonRequest ''id'' \<noteq> None
                  \<and> js_get jsonRequest ''id'' \<noteq> Some JNull
          then (case makeRequest n P cfg up jsonRequest w of
                  None \<Rightarrow> None
                | Some (Inr r, w') \<Rightarrow> Some (Handled w')
                | Some (Inl Crashed, w') \<Rightarrow> Some (Uncaught w')
                | Some (Inl (Rejected e), w') \<Rightarrow> Some (Handled (request_failed jsonRequest e w')))
          else Some (Handled (sendError (JNum ''-32600'') ''Invalid Request: missing method or id''
                                (id_or_null jsonRequest) w)))"

section \<open>Sample inputs\<close>

text \<open>An upstream that answers the k-th request with the k-th entry of a script.\<close>

definition replay :: "http_outcome list \<Rightarrow> upstream" where
  "replay rs hist =
     (if 0 < length hist \<and> length hist \<le> length rs then rs ! (length hist - 1) else RequestTimeout)"

definition reply :: "nat \<Rightarrow> (string \<times> string) list \<Rightarrow> string \<Rightarrow> http_outcome" where
  "reply status hdrs dat = Response \<lparr>res_statusCode = status, res_headers = map_of hdrs, res_data = dat\<rparr>"

definition tools_list_request :: json where
  "tools_list_request = JObj [(''jsonrpc'', JStr ''2.0''), (''method'', JStr ''tools/list''), (''id'', JNum ''7'')]"

definition sample_config :: config where
  "sample_config = \<lparr>BEARER_TOKEN = Some ''jwt'', customHeaders = Map.empty\<rparr>"

definition fresh :: bridge where
  "fresh = \<lparr>sessionId = None, isInitialized = False, stdout = [], sent = []\<rparr>"

definition in_session :: "string \<Rightarrow> bridge" where
  "in_session s = \<lparr>sessionId = Some s, isInitialized = True, stdout = [], sent = []\<rparr>"

text \<open>Texts used in the examples, with the values \<^verbatim>\<open>JSON.parse\<close> gives for them.\<close>

definition text_a :: string where
  \<open>text_a = ''{"a":1}''\<close>

definition text_b :: string where
  \<open>text_b = ''{"b":2}''\<close>

definition text_forbidden :: string where
  \<open>text_forbidden = ''{"code":"rest_forbidden","message":"Sorry","data":{"status":401}}''\<close>

definition text_rpc_error :: string where
  \<open>text_rpc_error = ''{"error":{"code":-32601,"message":"Method not found"}}''\<close>

definition text_bomb :: string where
  \<open>text_bomb = ''{"message":{"toString":1}}''\<close>

definition text_status_bomb :: string where
  \<open>text_status_bomb = ''{"message":"boom","data":{"status":{"toString":1}}}''\<close>

definition text_request :: string where
  \<open>text_request = ''{"jsonrpc":"2.0","method":"tools/list","id":7}''\<close>

definition text_ping :: string where
  \<open>text_ping = ''{"jsonrpc":"2.0","method":"ping","id":0}''\<close>

definition text_notification :: string where
  \<open>text_notification = ''{"jsonrpc":"2.0","method":"notifications/initialized"}''\<close>

definition ping_request :: json where
  "ping_request = JObj [(''jsonrpc'', JStr ''2.0''), (''method'', JStr ''ping''), (''id'', JNum ''0'')]"

definition initialized_notification :: json where
  "initialized_notification =
     JObj [(''jsonrpc'', JStr ''2.0''), (''method'', JStr ''notifications/initialized'')]"

text \<open>A stand-in for \<^verbatim>\<open>JSON.parse\<close> in the examples: it agrees with it on the texts
  listed and on the texts of the examples that are no JSON.\<close>

definition sample_parse :: "string \<Rightarrow> string + json" where
  "sample_parse s =
     (case map_of
        [(''{}'', JObj []),
         (text_a, JObj [(''a'', JNum ''1'')]),
         (text_b, JObj [(''b'', JNum ''2'')]),
         (text_forbidden,
            JObj [(''code'', JStr ''rest_forbidden''), (''message'', JStr ''Sorry''),
                  (''data'', JObj [(''status'', JNum ''401'')])]),
         (text_rpc_error,
            JObj [(''error'', JObj [(''code'', JNum ''-32601''), (''message'', JStr ''Method not found'')])]),
         (text_request, tools_list_request),
         (text_ping, ping_request),
         (text_notification, initialized_notification),
         (text_bomb, JObj [(''message'', JObj [(''toString'', JNum ''1'')])]),
         (text_status_bomb,
            JObj [(''message'', JStr ''boom''),
                  (''data'', JObj [(''status'', JObj [(''toString'', JNum ''1'')])])])] s of
        Some v \<Rightarrow> Inr v
      | None \<Rightarrow> Inl ''Unexpected token'')"

text \<open>The platform of the examples; no example looks at the byte length.\<close>

definition sample_platform :: platform where
  "sample_platform = \<lparr>JSON_parse = sample_parse, content_length = (\<lambda>v. 0)\<rparr>"

text \<open>Where a session token comes from.\<close>

definition token_origin :: "upstream \<Rightarrow> bridge \<Rightarrow> bridge \<Rightarrow> bool" where
  "token_origin up w w' =
     ((sessionId w' = sessionId w \<and> isInitialized w' = isInitialized w)
      \<or> (sessionId w' = None \<and> \<not> isInitialized w')
      \<or> (\<exists>hist res. hist \<noteq> [] \<and> isInitialize (body (last hist)) \<and> up hist = Response res
            \<and> str_truthy (sessionHeader res) \<and> sessionId w' = sessionHeader res \<and> isInitialized w'))"

definition pinned_config :: config where
  "pinned_config = \<lparr>BEARER_TOKEN = None, customHeaders = [''Mcp-Session-Id'' \<mapsto> JStr ''pinned'']\<rparr>"

text \<open>An upstream that answers every initialize request with status 200 and a session
  header, and every other request with status 404.\<close>

definition expiring_upstream :: upstream where
  "expiring_upstream hist =
     (if hist \<noteq> [] \<and> isInitialize (body (last hist))
      then reply 200 [(''mcp-session-id'', ''S'')] []
      else reply 404 [] [])"

section \<open>Basic facts\<close>

declare makeRequest.simps(2) [simp del] reinitializeAndRetry.simps [simp del]

lemmas sample_defs = sample_platform_def sample_parse_def text_a_def text_b_def text_forbidden_def
  text_rpc_error_def text_request_def text_ping_def text_notification_def text_bomb_def
  text_status_bomb_def

lemma trim_Nil [simp]: "trim [] = []"
  by (simp add: trim_def)

lemma forward_lines_eq:
  "forward_lines P ls w = w\<lparr>stdout := stdout w @ map Raw (filter (is_json P) ls)\<rparr>"
  by (induction ls arbitrary: w) (auto simp: is_json_def split: sum.splits)

lemma on_success_eq:
  "on_success P dat w =
     (if trim dat = [] then Null else Data dat,
      w\<lparr>stdout := stdout w @ map Raw (filter (is_json P) (filter (\<lambda>l. trim l \<noteq> []) (split_newline (trim dat))))\<rparr>)"
  by (simp add: on_success_def Let_def forward_lines_eq)

lemma makeRequest_error:
  "up (sent w @ [outgoing P cfg jsonRequest w]) = RequestError m \<Longrightarrow>
   makeRequest (Suc n) P cfg up jsonRequest w =
     Some (Inl (Rejected \<lparr>message = m, statusCode = None, errorCode = None\<rparr>),
           w\<lparr>sent := sent w @ [outgoing P cfg jsonRequest w]\<rparr>)"
  by (simp add: makeRequest.simps Let_def)

lemma makeRequest_timeout:
  "up (sent w @ [outgoing P cfg jsonRequest w]) = RequestTimeout \<Longrightarrow>
   makeRequest (Suc n) P cfg up jsonRequest w =
     Some (Inl (Rejected \<lparr>message = ''Request timeout'', statusCode = None, errorCode = None\<rparr>),
           w\<lparr>sent := sent w @ [outgoing P cfg jsonRequest w]\<rparr>)"
  by (simp add: makeRequest.simps Let_def)

lemma makeRequest_response:
  assumes "up (sent w @ [outgoing P cfg jsonRequest w]) = Response res"
  shows "makeRequest (Suc n) P cfg up jsonRequest w =
     (let w2 = on_response (isInitialize jsonRequest) res (w\<lparr>sent := sent w @ [outgoing P cfg jsonRequest w]\<rparr>)
      in if res_statusCode res = 404 \<and> str_truthy (sessionId w2) \<and> \<not> isInitialize jsonRequest
         then reinitializeAndRetry n P cfg up jsonRequest (w2\<lparr>sessionId := None, isInitialized := False\<rparr>)
         else if 200 \<le> res_statusCode res \<and> res_statusCode res < 300
         then Some (Inr (if trim (res_data res) = [] then Null else Data (res_data res)),
                    w2\<lparr>stdout := stdout w2 @ map Raw (filter (is_json P)
                           (filter (\<lambda>l. trim l \<noteq> []) (split_newline (trim (res_data res)))))\<rparr>)
         else Some (Inl (http_error P res), w2))"
  using assms by (simp add: makeRequest.simps Let_def on_success_eq split del: if_split cong: if_cong)

text \<open>A response that does not start the recovery.\<close>

lemma makeRequest_plain:
  assumes "up (sent w @ [outgoing P cfg jsonRequest w]) = Response res"
    and "\<not> (res_statusCode res = 404 \<and> str_truthy (sessionId w) \<and> \<not> isInitialize jsonRequest)"
  shows "makeRequest (Suc n) P cfg up jsonRequest w =
     (let w2 = on_response (isInitialize jsonRequest) res (w\<lparr>sent := sent w @ [outgoing P cfg jsonRequest w]\<rparr>)
      in if 200 \<le> res_statusCode res \<and> res_statusCode res < 300
         then Some (Inr (if trim (res_data res) = [] then Null else Data (res_data res)),
                    w2\<lparr>stdout := stdout w2 @ map Raw (filter (is_json P)
                           (filter (\<lambda>l. trim l \<noteq> []) (split_newline (trim (res_data res)))))\<rparr>)
         else Some (Inl (http_error P res), w2))"
proof -
  let ?w2 = "on_response (isInitialize jsonRequest) res (w\<lparr>sent := sent w @ [outgoing P cfg jsonRequest w]\<rparr>)"
  have nc: "(res_statusCode res = 404 \<and> str_truthy (sessionId ?w2) \<and> \<not> isInitialize jsonRequest) = False"
    using assms(2) by (auto simp: on_response_def)
  from assms(1) have "makeRequest (Suc n) P cfg up jsonRequest w =
     (let w2 = ?w2
      in if res_statusCode res = 404 \<and> str_truthy (sessionId w2) \<and> \<not> isInitialize jsonRequest
         then reinitializeAndRetry n P cfg up jsonRequest (w2\<lparr>sessionId := None, isInitialized := False\<rparr>)
         else if 200 \<le> res_statusCode res \<and> res_statusCode res < 300
         then Some (Inr (if trim (res_data res) = [] then Null else Data (res_data res)),
                    w2\<lparr>stdout := stdout w2 @ map Raw (filter (is_json P)
                           (filter (\<lambda>l. trim l \<noteq> []) (split_newline (trim (res_data res)))))\<rparr>)
         else Some (Inl (http_error P res), w2))"
    by (rule makeRequest_response)
  then show ?thesis
    by (simp only: Let_def nc if_False)
qed

text \<open>A 404 for a call other than initialize, while a session token is held.\<close>

lemma makeRequest_expired:
  assumes "up (sent w @ [outgoing P cfg jsonRequest w]) = Response res"
    and "res_statusCode res = 404" and "str_truthy (sessionId w)" and "\<not> isInitialize jsonRequest"
  shows "makeRequest (Suc n) P cfg up jsonRequest w =
     reinitializeAndRetry n P cfg up jsonRequest
       (w\<lparr>sent := sent w @ [outgoing P cfg jsonRequest w], sessionId := None, isInitialized := False\<rparr>)"
  using assms by (simp add: makeRequest_response Let_def on_response_def)

lemma token_origin_refl: "token_origin up w w"
  by (simp add: token_origin_def)

lemma token_origin_trans:
  "token_origin up w w1 \<Longrightarrow> token_origin up w1 w2 \<Longrightarrow> token_origin up w w2"
  unfolding token_origin_def by metis

lemma token_origin_frame [simp]:
  "token_origin up w (w'\<lparr>stdout := out\<rparr>) = token_origin up w w'"
  "token_origin up (w\<lparr>stdout := out\<rparr>) w' = token_origin up w w'"
  "token_origin up (w\<lparr>sent := s\<rparr>) w' = token_origin up w w'"
  "token_origin up w (w'\<lparr>sent := s\<rparr>) = token_origin up w w'"
  by (simp_all add: token_origin_def)

lemma token_origin_cleared:
  "token_origin up w (w'\<lparr>sessionId := None, isInitialized := False\<rparr>)"
  by (simp add: token_origin_def)

lemma token_origin_on_response:
  assumes "up (sent w @ [outgoing P cfg jsonRequest w]) = Response res"
  shows "token_origin up w (on_response (isInitialize jsonRequest) res
           (w\<lparr>sent := sent w @ [outgoing P cfg jsonRequest w]\<rparr>))"
proof (cases "str_truthy (sessionHeader res) \<and> isInitialize jsonRequest")
  case True
  have "sent w @ [outgoing P cfg jsonRequest w] \<noteq> []
      \<and> isInitialize (body (last (sent w @ [outgoing P cfg jsonRequest w])))"
    using True by (simp add: outgoing_def)
  with True assms show ?thesis
    unfolding token_origin_def on_response_def by (simp, blast)
next
  case False
  then show ?thesis by (auto simp: on_response_def token_origin_def)
qed

lemma recovery_failed_token [simp]:
  "token_origin up w (snd (recovery_failed rq e w')) = token_origin up w w'"
  by (simp add: recovery_failed_def sendError_def)

lemma reinitializeAndRetry_cases:
  assumes "reinitializeAndRetry n P cfg up rq w = Some (r, w')"
  obtains (init_failed) e w1 where "makeRequest n P cfg up initRequest w = Some (Inl (Rejected e), w1)"
      and "(r, w') = recovery_failed rq e w1"
    | (init_crashed) "makeRequest n P cfg up initRequest w = Some (Inl Crashed, w')" and "r = Inl Crashed"
    | (retry_failed) x w1 e w2 where "makeRequest n P cfg up initRequest w = Some (Inr x, w1)"
      and "makeRequest n P cfg up rq w1 = Some (Inl (Rejected e), w2)" and "(r, w') = recovery_failed rq e w2"
    | (retry_crashed) x w1 where "makeRequest n P cfg up initRequest w = Some (Inr x, w1)"
      and "makeRequest n P cfg up rq w1 = Some (Inl Crashed, w')" and "r = Inl Crashed"
    | (retry_ok) x w1 y where "makeRequest n P cfg up initRequest w = Some (Inr x, w1)"
      and "makeRequest n P cfg up rq w1 = Some (Inr y, w')" and "r = Inr Undefined"
  using assms
  by (auto simp: reinitializeAndRetry.simps split: option.splits sum.splits prod.splits failure.splits)

lemma makeRequest_token_origin:
  "makeRequest n P cfg up jsonRequest w = Some (r, w') \<Longrightarrow> token_origin up w w'"
proof (induction n arbitrary: jsonRequest w r w')
  case 0
  then show ?case by simp
next
  case (Suc n)
  let ?w1 = "w\<lparr>sent := sent w @ [outgoing P cfg jsonRequest w]\<rparr>"
  show ?case
  proof (cases "up (sent w @ [outgoing P cfg jsonRequest w])")
    case (RequestError m)
    with Suc.prems show ?thesis by (auto simp: makeRequest_error token_origin_def)
  next
    case RequestTimeout
    with Suc.prems show ?thesis by (auto simp: makeRequest_timeout token_origin_def)
  next
    case (Response res)
    let ?w2 = "on_response (isInitialize jsonRequest) res ?w1"
    have w2: "token_origin up w ?w2" by (rule token_origin_on_response) (rule Response)
    show ?thesis
    proof (cases "res_statusCode res = 404 \<and> str_truthy (sessionId w) \<and> \<not> isInitialize jsonRequest")
      case True
      let ?wc = "w\<lparr>sent := sent w @ [outgoing P cfg jsonRequest w], sessionId := None, isInitialized := False\<rparr>"
      from Suc.prems Response True
      have re: "reinitializeAndRetry n P cfg up jsonRequest ?wc = Some (r, w')"
        by (simp add: makeRequest_expired)
      have c: "token_origin up w ?wc" by (simp add: token_origin_def)
      from re show ?thesis
      proof (cases rule: reinitializeAndRetry_cases)
        case (init_failed e w1)
        from Suc.IH [OF init_failed(1)] init_failed(2) have "token_origin up ?wc w'"
          by (metis recovery_failed_token snd_conv)
        with c show ?thesis by (rule token_origin_trans)
      next
        case init_crashed
        from c Suc.IH [OF init_crashed(1)] show ?thesis by (rule token_origin_trans)
      next
        case (retry_failed x w1 e w2)
        from Suc.IH [OF retry_failed(2)] retry_failed(3) have "token_origin up w1 w'"
          by (metis recovery_failed_token snd_conv)
        with c Suc.IH [OF retry_failed(1)] show ?thesis by (blast intro: token_origin_trans)
      next
        case (retry_crashed x w1)
        with c Suc.IH [OF retry_crashed(1)] Suc.IH [OF retry_crashed(2)] show ?thesis
          by (blast intro: token_origin_trans)
      next
        case (retry_ok x w1 y)
        with c Suc.IH [OF retry_ok(1)] Suc.IH [OF retry_ok(2)] show ?thesis
          by (blast intro: token_origin_trans)
      qed
    next
      case False
      with Suc.prems Response have "w' = ?w2 \<or> (\<exists>out. w' = ?w2\<lparr>stdout := out\<rparr>)"
        by (auto simp: makeRequest_plain Let_def split: if_splits)
      with w2 show ?thesis by auto
    qed
  qed
qed


lemma makeRequest_sent:
  "makeRequest n P cfg up jsonRequest w = Some (r, w') \<Longrightarrow>
   \<exists>rest. sent w' = sent w @ outgoing P cfg jsonRequest w # rest"
proof (induction n arbitrary: jsonRequest w r w')
  case 0
  then show ?case by simp
next
  case (Suc n)
  show ?case
  proof (cases "up (sent w @ [outgoing P cfg jsonRequest w])")
    case (RequestError m)
    with Suc.prems show ?thesis by (auto simp: makeRequest_error)
  next
    case RequestTimeout
    with Suc.prems show ?thesis by (auto simp: makeRequest_timeout)
  next
    case (Response res)
    show ?thesis
    proof (cases "res_statusCode res = 404 \<and> str_truthy (sessionId w) \<and> \<not> isInitialize jsonRequest")
      case True
      let ?wc = "w\<lparr>sent := sent w @ [outgoing P cfg jsonRequest w], sessionId := None, isInitialized := False\<rparr>"
      from Suc.prems Response True
      have re: "reinitializeAndRetry n P cfg up jsonRequest ?wc = Some (r, w')"
        by (simp add: makeRequest_expired)
      from re show ?thesis
      proof (cases rule: reinitializeAndRetry_cases)
        case (init_failed e w1)
        from Suc.IH [OF init_failed(1)] init_failed(2) show ?thesis
          by (auto simp: recovery_failed_def sendError_def)
      next
        case init_crashed
        from Suc.IH [OF init_crashed(1)] show ?thesis
          by auto
      next
        case (retry_failed x w1 e w2)
        from Suc.IH [OF retry_failed(1)] Suc.IH [OF retry_failed(2)] retry_failed(3) show ?thesis
          by (auto simp: recovery_failed_def sendError_def)
      next
        case (retry_crashed x w1)
        from Suc.IH [OF retry_crashed(1)] Suc.IH [OF retry_crashed(2)] show ?thesis
          by auto
      next
        case (retry_ok x w1 y)
        from Suc.IH [OF retry_ok(1)] Suc.IH [OF retry_ok(2)] show ?thesis
          by auto
      qed
    next
      case False
      with Suc.prems Response show ?thesis
        by (auto simp: makeRequest_plain Let_def on_response_def split: if_splits)
    qed
  qed
qed

section \<open>Session state and responses\<close>

text \<open>
  Claim C10. An initialize call whose response carries a session header (a non-empty
  value under one of the names the bridge reads) stores the header as the session token
  and sets the initialized flag, whatever the status code: on a status outside 200 to
  299 the promise is rejected with the HTTP error and the state handed on already holds
  the new token.
\<close>

theorem C10_initialize_response_sets_session:
  assumes "isInitialize jsonRequest"
    and "up (sent w @ [outgoing P cfg jsonRequest w]) = Response res"
    and "str_truthy (sessionHeader res)"
  shows "\<exists>r w'. makeRequest (Suc n) P cfg up jsonRequest w = Some (r, w')
           \<and> sessionId w' = sessionHeader res \<and> isInitialized w'
           \<and> (\<not> (200 \<le> res_statusCode res \<and> res_statusCode res < 300) \<longrightarrow> r = Inl (http_error P res))"
  using assms by (auto simp: makeRequest_plain Let_def on_response_def)

theorem C10_witness:
  "isInitialize initRequest
   \<and> str_truthy (sessionHeader \<lparr>res_statusCode = 500, res_headers = [''mcp-session-id'' \<mapsto> ''S2''], res_data = ''oops''\<rparr>)
   \<and> (\<exists>r w'. makeRequest (Suc 0) sample_platform sample_config
          (\<lambda>hist. Response \<lparr>res_statusCode = 500, res_headers = [''mcp-session-id'' \<mapsto> ''S2''], res_data = ''oops''\<rparr>)
          initRequest (in_session ''S1'') = Some (r, w')
        \<and> sessionId w' = Some ''S2'' \<and> isInitialized w'
        \<and> r = Inl (http_error sample_platform
                 \<lparr>res_statusCode = 500, res_headers = [''mcp-session-id'' \<mapsto> ''S2''], res_data = ''oops''\<rparr>))"
proof -
  let ?res = "\<lparr>res_statusCode = 500, res_headers = [''mcp-session-id'' \<mapsto> ''S2''], res_data = ''oops''\<rparr>"
  have a: "isInitialize initRequest"
    by (simp add: isInitialize_def initRequest_def)
  have b: "(\<lambda>hist. Response ?res)
             (sent (in_session ''S1'') @ [outgoing sample_platform sample_config initRequest (in_session ''S1'')])
           = Response ?res"
    by simp
  have c: "str_truthy (sessionHeader ?res)"
    by (simp add: sessionHeader_def js_or_def)
  have d: "sessionHeader ?res = Some ''S2''"
    by (simp add: sessionHeader_def js_or_def)
  from C10_initialize_response_sets_session [where up = "\<lambda>hist. Response ?res", OF a b c, of 0]
  show ?thesis using a c d by simp
qed

text \<open>
  Claim C9, as amended. A response to a call other than initialize leaves the session
  token and the initialized flag as they were, also when it carries a session header,
  unless it is a 404 arriving while a token is held. Through any call, recovery
  included, the token afterwards is the one held before, or none, or the session header
  of a response that the upstream gave to an initialize request.
\<close>

theorem C9_non_initialize_response_keeps_session:
  assumes "\<not> isInitialize jsonRequest"
    and "up (sent w @ [outgoing P cfg jsonRequest w]) = Response res"
    and "\<not> (res_statusCode res = 404 \<and> str_truthy (sessionId w))"
  shows "(\<exists>r w'. makeRequest (Suc n) P cfg up jsonRequest w = Some (r, w')
            \<and> sessionId w' = sessionId w \<and> isInitialized w' = isInitialized w)
         \<and> (\<forall>m rq v r w'. makeRequest m P cfg up rq v = Some (r, w') \<longrightarrow> token_origin up v w')"
proof
  from assms show "\<exists>r w'. makeRequest (Suc n) P cfg up jsonRequest w = Some (r, w')
            \<and> sessionId w' = sessionId w \<and> isInitialized w' = isInitialized w"
    by (auto simp: makeRequest_plain Let_def on_response_def)
  show "\<forall>m rq v r w'. makeRequest m P cfg up rq v = Some (r, w') \<longrightarrow> token_origin up v w'"
    by (blast intro: makeRequest_token_origin)
qed

theorem C9_witness:
  "\<not> isInitialize tools_list_request
   \<and> (\<exists>r w'. makeRequest (Suc 0) sample_platform sample_config
          (\<lambda>hist. Response \<lparr>res_statusCode = 200, res_headers = [''mcp-session-id'' \<mapsto> ''S9''], res_data = ''{}''\<rparr>)
          tools_list_request (in_session ''S1'') = Some (r, w')
        \<and> sessionId w' = Some ''S1'' \<and> isInitialized w')"
proof -
  let ?res = "\<lparr>res_statusCode = 200, res_headers = [''mcp-session-id'' \<mapsto> ''S9''], res_data = ''{}''\<rparr>"
  have a: "\<not> isInitialize tools_list_request"
    by (simp add: isInitialize_def tools_list_request_def)
  have b: "(\<lambda>hist. Response ?res)
             (sent (in_session ''S1'') @ [outgoing sample_platform sample_config tools_list_request (in_session ''S1'')])
           = Response ?res"
    by simp
  have c: "\<not> (res_statusCode ?res = 404 \<and> str_truthy (sessionId (in_session ''S1'')))"
    by simp
  from C9_non_initialize_response_keeps_session [where up = "\<lambda>hist. Response ?res", OF a b c, of 0]
  show ?thesis using a by (simp add: in_session_def)
qed

text \<open>The claim as stated fails: a 404 for \<^verbatim>\<open>tools/list\<close> while the token S1 is held,
  followed by a failing synthetic initialize, leaves no token and the flag cleared.\<close>

theorem C9_counterexample:
  "\<not> isInitialize tools_list_request
   \<and> map_option (\<lambda>(r, w'). (sessionId w', isInitialized w'))
       (makeRequest (Suc (Suc 0)) sample_platform sample_config
          (replay [reply 404 [(''mcp-session-id'', ''S9'')] ''gone'', reply 500 [] ''down''])
          tools_list_request (in_session ''S1''))
     = Some (None, False)"
  by (simp add: makeRequest.simps reinitializeAndRetry.simps replay_def reply_def in_session_def
      tools_list_request_def initRequest_def isInitialize_def on_response_def sessionHeader_def
      js_or_def Let_def recovery_failed_def sendError_def outgoing_def
      http_error_def error_from_text_def substring0_def trim_def is_space_def sample_defs)

section \<open>Expired sessions\<close>

text \<open>
  Claim C4, as amended. For a call other than initialize whose response has status 404
  while a session token is held, the token and the initialized flag are cleared and the
  recovery runs: the synthetic initialize is the next request sent, and the original
  request is sent again once that initialize has succeeded. Nothing else starts the
  recovery. A 404 received while no token is held, like any other status outside 200 to
  299, rejects the promise with the HTTP error and leaves the session state alone.
\<close>

theorem C4_not_found_starts_recovery:
  assumes "\<not> isInitialize jsonRequest"
    and "up (sent w @ [outgoing P cfg jsonRequest w]) = Response res"
  shows "(res_statusCode res = 404 \<and> str_truthy (sessionId w) \<longrightarrow>
            makeRequest (Suc n) P cfg up jsonRequest w =
              reinitializeAndRetry n P cfg up jsonRequest
                (w\<lparr>sent := sent w @ [outgoing P cfg jsonRequest w], sessionId := None, isInitialized := False\<rparr>)
            \<and> (\<forall>r w'. makeRequest (Suc n) P cfg up jsonRequest w = Some (r, w') \<longrightarrow>
                  (\<exists>rest. sent w' = sent w @ outgoing P cfg jsonRequest w
                       # outgoing P cfg initRequest
                           (w\<lparr>sent := sent w @ [outgoing P cfg jsonRequest w], sessionId := None, isInitialized := False\<rparr>)
                       # rest)))
       \<and> (\<not> (res_statusCode res = 404 \<and> str_truthy (sessionId w))
            \<and> \<not> (200 \<le> res_statusCode res \<and> res_statusCode res < 300) \<longrightarrow>
            makeRequest (Suc n) P cfg up jsonRequest w =
              Some (Inl (http_error P res), w\<lparr>sent := sent w @ [outgoing P cfg jsonRequest w]\<rparr>))"
proof (intro conjI impI allI)
  let ?wc = "w\<lparr>sent := sent w @ [outgoing P cfg jsonRequest w], sessionId := None, isInitialized := False\<rparr>"
  assume h: "res_statusCode res = 404 \<and> str_truthy (sessionId w)"
  with assms show eq: "makeRequest (Suc n) P cfg up jsonRequest w = reinitializeAndRetry n P cfg up jsonRequest ?wc"
    by (simp add: makeRequest_expired)
  fix r w'
  assume "makeRequest (Suc n) P cfg up jsonRequest w = Some (r, w')"
  with eq have re: "reinitializeAndRetry n P cfg up jsonRequest ?wc = Some (r, w')" by simp
  then show "\<exists>rest. sent w' = sent w @ outgoing P cfg jsonRequest w # outgoing P cfg initRequest ?wc # rest"
  proof (cases rule: reinitializeAndRetry_cases)
    case (init_failed e w1)
    from makeRequest_sent [OF init_failed(1)] init_failed(2) show ?thesis
      by (auto simp: recovery_failed_def sendError_def)
  next
    case init_crashed
    from makeRequest_sent [OF init_crashed(1)] show ?thesis
      by auto
  next
    case (retry_failed x w1 e w2)
    from makeRequest_sent [OF retry_failed(1)] makeRequest_sent [OF retry_failed(2)] retry_failed(3)
    show ?thesis by (auto simp: recovery_failed_def sendError_def)
  next
    case (retry_crashed x w1)
    from makeRequest_sent [OF retry_crashed(1)] makeRequest_sent [OF retry_crashed(2)]
    show ?thesis by auto
  next
    case (retry_ok x w1 y)
    from makeRequest_sent [OF retry_ok(1)] makeRequest_sent [OF retry_ok(2)]
    show ?thesis by auto
  qed
next
  assume "\<not> (res_statusCode res = 404 \<and> str_truthy (sessionId w))
            \<and> \<not> (200 \<le> res_statusCode res \<and> res_statusCode res < 300)"
  with assms show "makeRequest (Suc n) P cfg up jsonRequest w =
              Some (Inl (http_error P res), w\<lparr>sent := sent w @ [outgoing P cfg jsonRequest w]\<rparr>)"
    by (auto simp: makeRequest_plain Let_def on_response_def)
qed

theorem C4_witness:
  "\<not> isInitialize tools_list_request
   \<and> str_truthy (sessionId (in_session ''S1''))
   \<and> makeRequest (Suc (Suc 0)) sample_platform sample_config
        (replay [reply 404 [] ''gone'', reply 200 [(''mcp-session-id'', ''S2'')] ''{}'', reply 200 [] text_a])
        tools_list_request (in_session ''S1'')
     = reinitializeAndRetry (Suc 0) sample_platform sample_config
        (replay [reply 404 [] ''gone'', reply 200 [(''mcp-session-id'', ''S2'')] ''{}'', reply 200 [] text_a])
        tools_list_request
        ((in_session ''S1'')\<lparr>sent := [outgoing sample_platform sample_config tools_list_request (in_session ''S1'')],
            sessionId := None, isInitialized := False\<rparr>)
   \<and> map_option (\<lambda>(r, w'). (map body (sent w'), stdout w', sessionId w'))
        (makeRequest (Suc (Suc 0)) sample_platform sample_config
          (replay [reply 404 [] ''gone'', reply 200 [(''mcp-session-id'', ''S2'')] ''{}'', reply 200 [] text_a])
          tools_list_request (in_session ''S1''))
     = Some ([tools_list_request, initRequest, tools_list_request], [Raw ''{}'', Raw text_a], Some ''S2'')"
proof -
  let ?up = "replay [reply 404 [] ''gone'', reply 200 [(''mcp-session-id'', ''S2'')] ''{}'', reply 200 [] text_a]"
  let ?res = "\<lparr>res_statusCode = 404, res_headers = map_of [], res_data = ''gone''\<rparr>"
  have a: "\<not> isInitialize tools_list_request"
    by (simp add: isInitialize_def tools_list_request_def)
  have b: "?up (sent (in_session ''S1'') @ [outgoing sample_platform sample_config tools_list_request (in_session ''S1'')])
           = Response ?res"
    by (simp add: replay_def reply_def in_session_def)
  have c: "str_truthy (sessionId (in_session ''S1''))"
    by (simp add: in_session_def)
  have d: "sent (in_session ''S1'') = []"
    by (simp add: in_session_def)
  have e: "map_option (\<lambda>(r, w'). (map body (sent w'), stdout w', sessionId w'))
        (makeRequest (Suc (Suc 0)) sample_platform sample_config ?up tools_list_request (in_session ''S1''))
     = Some ([tools_list_request, initRequest, tools_list_request], [Raw ''{}'', Raw text_a], Some ''S2'')"
    by (simp add: makeRequest.simps reinitializeAndRetry.simps replay_def reply_def in_session_def
      tools_list_request_def initRequest_def isInitialize_def on_response_def sessionHeader_def
      js_or_def Let_def outgoing_def on_success_eq sample_defs is_json_def
      trim_def is_space_def)
  from C4_not_found_starts_recovery [where up = ?up and res = ?res, OF a b, of 1]
  show ?thesis using a c d e by simp
qed

text \<open>The claim as stated fails: with no session token held, a 404 for \<^verbatim>\<open>tools/list\<close>
  starts no recovery. One request is sent, and the promise is rejected with the HTTP
  error, however much fuel is given.\<close>

theorem C4_counterexample:
  "\<not> isInitialize tools_list_request
   \<and> map_option (\<lambda>(r, w'). (r, map body (sent w')))
       (makeRequest (Suc (Suc (Suc 0))) sample_platform sample_config
          (replay [reply 404 [] ''gone'', reply 200 [(''mcp-session-id'', ''S2'')] ''{}'', reply 200 [] text_a])
          tools_list_request fresh)
     = Some (Inl (Rejected \<lparr>message = ''HTTP 404: gone'', statusCode = Some 404,
                              errorCode = Some (JNum ''-32000'')\<rparr>),
             [tools_list_request])"
  by (simp add: makeRequest.simps replay_def reply_def fresh_def
      tools_list_request_def isInitialize_def on_response_def sessionHeader_def
      js_or_def Let_def outgoing_def sample_defs
      http_error_def error_from_text_def substring0_def trim_def is_space_def
      show_nat.simps digit_char_def)

section \<open>Request headers\<close>

text \<open>
  Claim C5, as amended. For an initialize call the session token is never attached: the
  Mcp-Session-Id header of the request is the one the custom headers configure, and is
  absent when they configure none. For another call made while a session token is held,
  the header is that token. A custom header named Content-Type or Authorization, in
  exactly that spelling, replaces the default of that name; without one the default
  stands.
\<close>

theorem C5_request_headers:
  "(isInitialize jsonRequest \<longrightarrow>
      request_headers P cfg jsonRequest w ''Mcp-Session-Id'' = customHeaders cfg ''Mcp-Session-Id'')
   \<and> (\<not> isInitialize jsonRequest \<and> sessionId w = Some t \<and> t \<noteq> [] \<longrightarrow>
      request_headers P cfg jsonRequest w ''Mcp-Session-Id'' = Some (JStr t))
   \<and> (k \<in> {''Content-Type'', ''Authorization''} \<longrightarrow>
      request_headers P cfg jsonRequest w k =
        (case customHeaders cfg k of Some v \<Rightarrow> Some v | None \<Rightarrow> baseHeaders cfg k))"
  by (auto simp: request_headers_def defaultHeaders_def baseHeaders_def Let_def map_add_def
      split: option.splits)

theorem C5_witness:
  "isInitialize initRequest
   \<and> request_headers sample_platform sample_config initRequest (in_session ''S1'') ''Mcp-Session-Id'' = None
   \<and> \<not> isInitialize tools_list_request
   \<and> request_headers sample_platform pinned_config tools_list_request (in_session ''S1'') ''Mcp-Session-Id''
       = Some (JStr ''S1'')
   \<and> request_headers sample_platform
       \<lparr>BEARER_TOKEN = Some ''jwt'', customHeaders = [''Authorization'' \<mapsto> JStr ''Basic abc'']\<rparr>
       tools_list_request fresh ''Authorization'' = Some (JStr ''Basic abc'')
   \<and> request_headers sample_platform
       \<lparr>BEARER_TOKEN = Some ''jwt'', customHeaders = [''authorization'' \<mapsto> JStr ''Basic abc'']\<rparr>
       tools_list_request fresh ''Authorization'' = Some (JStr ''Bearer jwt'')"
proof -
  have a: "isInitialize initRequest"
    by (simp add: isInitialize_def initRequest_def)
  have b: "\<not> isInitialize tools_list_request"
    by (simp add: isInitialize_def tools_list_request_def)
  have c: "sessionId (in_session ''S1'') = Some ''S1''"
    by (simp add: in_session_def)
  from C5_request_headers [of initRequest sample_platform sample_config "in_session ''S1''" "''S1''" "''Authorization''"]
    C5_request_headers [of tools_list_request sample_platform pinned_config "in_session ''S1''" "''S1''" "''Authorization''"]
    C5_request_headers [of tools_list_request sample_platform
       "\<lparr>BEARER_TOKEN = Some ''jwt'', customHeaders = [''Authorization'' \<mapsto> JStr ''Basic abc'']\<rparr>"
       fresh "''S1''" "''Authorization''"]
    C5_request_headers [of tools_list_request sample_platform
       "\<lparr>BEARER_TOKEN = Some ''jwt'', customHeaders = [''authorization'' \<mapsto> JStr ''Basic abc'']\<rparr>"
       fresh "''S1''" "''Authorization''"]
  show ?thesis using a b c
    by (simp add: sample_config_def baseHeaders_def)
qed

text \<open>The claim as stated fails: with a custom header Mcp-Session-Id configured, an
  initialize request carries that header.\<close>

theorem C5_counterexample:
  "isInitialize initRequest
   \<and> request_headers sample_platform pinned_config initRequest (in_session ''S1'') ''Mcp-Session-Id''
       = Some (JStr ''pinned'')"
  by (simp add: isInitialize_def initRequest_def request_headers_def defaultHeaders_def
      baseHeaders_def pinned_config_def Let_def)

section \<open>Input lines that are no JSON\<close>

text \<open>
  Claim C8, as amended. For an input line that is not blank and that
  \<^verbatim>\<open>JSON.parse\<close> rejects, the bridge writes one error object with code -32700 and id
  null and sends no HTTP request. A blank line (empty, or white space only) is skipped:
  nothing is written and nothing is sent.
\<close>

theorem C8_parse_error:
  "(trim line \<noteq> [] \<and> JSON_parse P line = Inl m \<longrightarrow>
      on_line n P cfg up line w =
        Some (Handled (w\<lparr>stdout := stdout w @
                [Stringified (error_response (JNum ''-32700'') (''Parse error: '' @ m) JNull)]\<rparr>)))
   \<and> (trim line = [] \<longrightarrow> on_line n P cfg up line w = Some (Handled w))"
  by (simp add: on_line_def sendError_def)

theorem C8_witness:
  "trim ''{oops'' \<noteq> []
   \<and> JSON_parse sample_platform ''{oops'' = Inl ''Unexpected token''
   \<and> on_line 0 sample_platform sample_config (replay []) ''{oops'' fresh =
       Some (Handled (fresh\<lparr>stdout :=
          [Stringified (JObj [(''jsonrpc'', JStr ''2.0''),
                              (''error'', JObj [(''code'', JNum ''-32700''),
                                                (''message'', JStr ''Parse error: Unexpected token'')]),
                              (''id'', JNull)])]\<rparr>))
   \<and> trim ''  '' = []
   \<and> on_line 0 sample_platform sample_config (replay []) ''  '' fresh = Some (Handled fresh)"
proof -
  have a: "trim ''{oops'' \<noteq> []"
    by (simp add: trim_def is_space_def)
  have b: "JSON_parse sample_platform ''{oops'' = Inl ''Unexpected token''"
    by (simp add: sample_defs)
  have c: "trim ''  '' = []"
    by (simp add: trim_def is_space_def)
  from C8_parse_error [of "''{oops''" sample_platform "''Unexpected token''" 0 sample_config "replay []" fresh]
    C8_parse_error [of "''  ''" sample_platform "''Unexpected token''" 0 sample_config "replay []" fresh]
  show ?thesis using a b c
    by (simp add: error_response_def fresh_def)
qed

text \<open>The claim as stated fails: the empty line is no JSON, and the bridge answers it
  with nothing.\<close>

theorem C8_counterexample:
  "\<not> is_json sample_platform []
   \<and> on_line (Suc 0) sample_platform sample_config (replay []) [] fresh = Some (Handled fresh)"
  by (simp add: is_json_def sample_defs on_line_def)

section \<open>Successful responses\<close>

lemma split_newline_not_Nil: "split_newline s \<noteq> []"
  by (induction s) (auto split: list.splits)

lemma split_newline_single:
  "CHR 0x0A \<notin> set l \<Longrightarrow> split_newline l = [l]"
  by (induction l) auto

lemma split_newline_append:
  "CHR 0x0A \<notin> set l \<Longrightarrow> split_newline (l @ CHR 0x0A # s) = l # split_newline s"
  by (induction l) auto

lemma split_newline_join:
  "ls \<noteq> [] \<Longrightarrow> \<forall>l \<in> set ls. CHR 0x0A \<notin> set l \<Longrightarrow> split_newline (join_with [CHR 0x0A] ls) = ls"
proof (induction "[CHR 0x0A]" ls rule: join_with.induct)
  case 1
  then show ?case by simp
next
  case (2 x)
  then show ?case by (simp add: split_newline_single)
next
  case (3 x y ys)
  then show ?case by (simp add: split_newline_append)
qed

lemma trim_unchanged:
  assumes "s \<noteq> []" and "\<not> is_space (hd s)" and "\<not> is_space (last s)"
  shows "trim s = s"
proof -
  from assms(1,2) have a: "dropWhile is_space s = s"
    by (cases s) auto
  from assms(1,3) have b: "dropWhile is_space (rev s) = rev s"
    by (cases "rev s") (auto simp: last_rev [symmetric] simp del: last_rev)
  show ?thesis by (simp add: trim_def a b)
qed

lemma join_with_Nil_iff: "join_with sep ls = [] \<longleftrightarrow> (\<forall>l \<in> set ls. l = []) \<and> (sep = [] \<or> length ls \<le> 1)"
  by (induction sep ls rule: join_with.induct) auto

lemma hd_join_with: "l \<noteq> [] \<Longrightarrow> hd (join_with sep (l # ls)) = hd l"
  by (cases ls) auto

lemma last_join_with:
  "ls \<noteq> [] \<Longrightarrow> last ls \<noteq> [] \<Longrightarrow> last (join_with sep ls) = last (last ls)"
proof (induction sep ls rule: join_with.induct)
  case (3 sep x y ys)
  have "last (y # ys) \<in> set (y # ys)"
    by (rule last_in_set) simp
  with 3(3) have "join_with sep (y # ys) \<noteq> []"
    unfolding join_with_Nil_iff by (metis last_ConsR list.distinct(1))
  with 3 show ?case by simp
qed auto

lemma trim_join_lines:
  assumes "ls \<noteq> []" and "hd ls \<noteq> []" and "last ls \<noteq> []"
    and "\<not> is_space (hd (hd ls))" and "\<not> is_space (last (last ls))"
  shows "trim (join_with sep ls) = join_with sep ls"
proof (rule trim_unchanged)
  from assms(1,2) show "join_with sep ls \<noteq> []"
    by (cases ls) (auto simp: join_with_Nil_iff)
  from assms(1,2,4) show "\<not> is_space (hd (join_with sep ls))"
    by (cases ls) (auto simp: hd_join_with)
  from assms(1,3,5) show "\<not> is_space (last (join_with sep ls))"
    by (simp add: last_join_with)
qed

text \<open>
  Claim C7. A response with status 200 to 299 resolves the promise. Its body is
  trimmed and split at newlines, blank lines are left out, and the lines that
  \<^verbatim>\<open>JSON.parse\<close> accepts are written as they are, in their order; the other lines
  are dropped. A body that trims to nothing writes nothing. A body made of n lines of
  valid JSON (none blank, the first without leading and the last without trailing white
  space) writes exactly these n lines; a body of one malformed and one valid line writes
  the valid line only.
\<close>

theorem C7_success_body_forwarded:
  assumes "up (sent w @ [outgoing P cfg jsonRequest w]) = Response res"
    and "200 \<le> res_statusCode res" and "res_statusCode res < 300"
  shows "\<exists>r w'. makeRequest (Suc n) P cfg up jsonRequest w = Some (Inr r, w')
     \<and> stdout w' = stdout w @ map Raw (filter (is_json P)
                      (filter (\<lambda>l. trim l \<noteq> []) (split_newline (trim (res_data res)))))
     \<and> (trim (res_data res) = [] \<longrightarrow> stdout w' = stdout w)
     \<and> (\<forall>ls. ls \<noteq> [] \<and> (\<forall>l \<in> set ls. trim l \<noteq> [] \<and> CHR 0x0A \<notin> set l \<and> is_json P l)
              \<and> \<not> is_space (hd (hd ls)) \<and> \<not> is_space (last (last ls))
              \<and> res_data res = join_with [CHR 0x0A] ls
            \<longrightarrow> stdout w' = stdout w @ map Raw ls)
     \<and> (\<forall>l1 l2. trim l1 \<noteq> [] \<and> trim l2 \<noteq> [] \<and> CHR 0x0A \<notin> set l1 \<and> CHR 0x0A \<notin> set l2
              \<and> \<not> is_space (hd l1) \<and> \<not> is_space (last l2)
              \<and> res_data res = join_with [CHR 0x0A] [l1, l2]
            \<longrightarrow> (\<not> is_json P l1 \<and> is_json P l2 \<longrightarrow> stdout w' = stdout w @ [Raw l2])
              \<and> (is_json P l1 \<and> \<not> is_json P l2 \<longrightarrow> stdout w' = stdout w @ [Raw l1]))"
proof -
  let ?w2 = "on_response (isInitialize jsonRequest) res (w\<lparr>sent := sent w @ [outgoing P cfg jsonRequest w]\<rparr>)"
  let ?out = "map Raw (filter (is_json P) (filter (\<lambda>l. trim l \<noteq> []) (split_newline (trim (res_data res)))))"
  let ?r = "if trim (res_data res) = [] then Null else Data (res_data res)"
  have nf: "\<not> (res_statusCode res = 404 \<and> str_truthy (sessionId w) \<and> \<not> isInitialize jsonRequest)"
    using assms(2,3) by simp
  have run: "makeRequest (Suc n) P cfg up jsonRequest w = Some (Inr ?r, ?w2\<lparr>stdout := stdout ?w2 @ ?out\<rparr>)"
    using assms nf by (simp add: makeRequest_plain Let_def)
  have out: "stdout (?w2\<lparr>stdout := stdout ?w2 @ ?out\<rparr>) = stdout w @ ?out"
    by (simp add: on_response_def)
  have lines: "?out = map Raw ls"
    if "ls \<noteq> []" and "\<forall>l \<in> set ls. trim l \<noteq> [] \<and> CHR 0x0A \<notin> set l"
      and "\<not> is_space (hd (hd ls))" and "\<not> is_space (last (last ls))"
      and "res_data res = join_with [CHR 0x0A] ls" and "\<forall>l \<in> set ls. is_json P l" for ls
  proof -
    from that(1,2) have "trim (hd ls) \<noteq> []" "trim (last ls) \<noteq> []"
      by simp_all
    then have ne: "hd ls \<noteq> []" "last ls \<noteq> []"
      by auto
    from that(1) ne that(3,4) have "trim (join_with [CHR 0x0A] ls) = join_with [CHR 0x0A] ls"
      by (rule trim_join_lines)
    moreover from that(1,2) have "split_newline (join_with [CHR 0x0A] ls) = ls"
      by (simp add: split_newline_join)
    ultimately show ?thesis using that(2,5,6) by simp
  qed
  have two: "?out = map Raw (filter (is_json P) [l1, l2])"
    if "trim l1 \<noteq> []" "trim l2 \<noteq> []" "CHR 0x0A \<notin> set l1" "CHR 0x0A \<notin> set l2"
      and "\<not> is_space (hd l1)" and "\<not> is_space (last l2)"
      and "res_data res = join_with [CHR 0x0A] [l1, l2]" for l1 l2
  proof -
    from that(1,2) have ne: "l1 \<noteq> []" "l2 \<noteq> []" by auto
    with that(5,6) have "trim (join_with [CHR 0x0A] [l1, l2]) = join_with [CHR 0x0A] [l1, l2]"
      by (intro trim_join_lines) auto
    moreover from that(3,4) have "split_newline (join_with [CHR 0x0A] [l1, l2]) = [l1, l2]"
      by (intro split_newline_join) auto
    ultimately show ?thesis using that(1,2,7) by simp
  qed
  let ?w3 = "?w2\<lparr>stdout := stdout ?w2 @ ?out\<rparr>"
  show ?thesis
  proof (intro exI conjI)
    show "makeRequest (Suc n) P cfg up jsonRequest w = Some (Inr ?r, ?w3)"
      by (rule run)
    show "stdout ?w3 = stdout w @ ?out"
      by (rule out)
    show "trim (res_data res) = [] \<longrightarrow> stdout ?w3 = stdout w"
      by (simp add: on_response_def)
    show "\<forall>ls. ls \<noteq> [] \<and> (\<forall>l \<in> set ls. trim l \<noteq> [] \<and> CHR 0x0A \<notin> set l \<and> is_json P l)
              \<and> \<not> is_space (hd (hd ls)) \<and> \<not> is_space (last (last ls))
              \<and> res_data res = join_with [CHR 0x0A] ls
            \<longrightarrow> stdout ?w3 = stdout w @ map Raw ls"
    proof (intro allI impI)
      fix ls
      assume h: "ls \<noteq> [] \<and> (\<forall>l \<in> set ls. trim l \<noteq> [] \<and> CHR 0x0A \<notin> set l \<and> is_json P l)
              \<and> \<not> is_space (hd (hd ls)) \<and> \<not> is_space (last (last ls))
              \<and> res_data res = join_with [CHR 0x0A] ls"
      then have "?out = map Raw ls"
        by (intro lines) auto
      with out show "stdout ?w3 = stdout w @ map Raw ls"
        by simp
    qed
    show "\<forall>l1 l2. trim l1 \<noteq> [] \<and> trim l2 \<noteq> [] \<and> CHR 0x0A \<notin> set l1 \<and> CHR 0x0A \<notin> set l2
              \<and> \<not> is_space (hd l1) \<and> \<not> is_space (last l2)
              \<and> res_data res = join_with [CHR 0x0A] [l1, l2]
            \<longrightarrow> (\<not> is_json P l1 \<and> is_json P l2 \<longrightarrow> stdout ?w3 = stdout w @ [Raw l2])
              \<and> (is_json P l1 \<and> \<not> is_json P l2 \<longrightarrow> stdout ?w3 = stdout w @ [Raw l1])"
    proof (intro allI impI)
      fix l1 l2
      assume h: "trim l1 \<noteq> [] \<and> trim l2 \<noteq> [] \<and> CHR 0x0A \<notin> set l1 \<and> CHR 0x0A \<notin> set l2
              \<and> \<not> is_space (hd l1) \<and> \<not> is_space (last l2)
              \<and> res_data res = join_with [CHR 0x0A] [l1, l2]"
      then have "?out = map Raw (filter (is_json P) [l1, l2])"
        by (intro two) auto
      with out have "stdout ?w3 = stdout w @ map Raw (filter (is_json P) [l1, l2])"
        by simp
      then show "(\<not> is_json P l1 \<and> is_json P l2 \<longrightarrow> stdout ?w3 = stdout w @ [Raw l2])
              \<and> (is_json P l1 \<and> \<not> is_json P l2 \<longrightarrow> stdout ?w3 = stdout w @ [Raw l1])"
        by simp
    qed
  qed
qed


theorem C7_witness:
  "(\<exists>r w'. makeRequest (Suc 0) sample_platform sample_config
        (\<lambda>hist. Response \<lparr>res_statusCode = 200, res_headers = Map.empty,
                             res_data = join_with [CHR 0x0A] [text_a, text_b]\<rparr>)
        tools_list_request fresh = Some (Inr r, w')
      \<and> stdout w' = [Raw text_a, Raw text_b])
   \<and> (\<exists>r w'. makeRequest (Suc 0) sample_platform sample_config
        (\<lambda>hist. Response \<lparr>res_statusCode = 200, res_headers = Map.empty,
                             res_data = join_with [CHR 0x0A] [''oops'', text_b]\<rparr>)
        tools_list_request fresh = Some (Inr r, w')
      \<and> stdout w' = [Raw text_b])"
proof
  let ?res = "\<lparr>res_statusCode = 200, res_headers = Map.empty,
                res_data = join_with [CHR 0x0A] [text_a, text_b]\<rparr>"
  have b: "(\<lambda>hist. Response ?res)
             (sent fresh @ [outgoing sample_platform sample_config tools_list_request fresh]) = Response ?res"
    by simp
  have c: "200 \<le> res_statusCode ?res" "res_statusCode ?res < 300"
    by simp_all
  have d: "[text_a, text_b] \<noteq> []
      \<and> (\<forall>l \<in> set [text_a, text_b]. trim l \<noteq> [] \<and> CHR 0x0A \<notin> set l \<and> is_json sample_platform l)
      \<and> \<not> is_space (hd (hd [text_a, text_b])) \<and> \<not> is_space (last (last [text_a, text_b]))
      \<and> res_data ?res = join_with [CHR 0x0A] [text_a, text_b]"
    by (simp add: text_a_def text_b_def trim_def is_space_def is_json_def sample_platform_def sample_parse_def)
  have f: "stdout fresh = []"
    by (simp add: fresh_def)
  from C7_success_body_forwarded [where up = "\<lambda>hist. Response ?res" and P = sample_platform
      and cfg = sample_config and jsonRequest = tools_list_request and w = fresh and res = ?res
      and n = 0, OF b c]
  obtain r w' where run: "makeRequest (Suc 0) sample_platform sample_config (\<lambda>hist. Response ?res)
        tools_list_request fresh = Some (Inr r, w')"
    and many: "\<forall>ls. ls \<noteq> [] \<and> (\<forall>l \<in> set ls. trim l \<noteq> [] \<and> CHR 0x0A \<notin> set l \<and> is_json sample_platform l)
              \<and> \<not> is_space (hd (hd ls)) \<and> \<not> is_space (last (last ls))
              \<and> res_data ?res = join_with [CHR 0x0A] ls
            \<longrightarrow> stdout w' = stdout fresh @ map Raw ls"
    by (elim exE conjE)
  from many [rule_format, OF d] f have "stdout w' = [Raw text_a, Raw text_b]"
    by simp
  with run show "\<exists>r w'. makeRequest (Suc 0) sample_platform sample_config (\<lambda>hist. Response ?res)
        tools_list_request fresh = Some (Inr r, w') \<and> stdout w' = [Raw text_a, Raw text_b]"
    by (intro exI conjI)
next
  let ?res = "\<lparr>res_statusCode = 200, res_headers = Map.empty,
                res_data = join_with [CHR 0x0A] [''oops'', text_b]\<rparr>"
  have b: "(\<lambda>hist. Response ?res)
             (sent fresh @ [outgoing sample_platform sample_config tools_list_request fresh]) = Response ?res"
    by simp
  have c: "200 \<le> res_statusCode ?res" "res_statusCode ?res < 300"
    by simp_all
  have d: "trim ''oops'' \<noteq> [] \<and> trim text_b \<noteq> [] \<and> CHR 0x0A \<notin> set ''oops'' \<and> CHR 0x0A \<notin> set text_b
      \<and> \<not> is_space (hd ''oops'') \<and> \<not> is_space (last text_b)
      \<and> res_data ?res = join_with [CHR 0x0A] [''oops'', text_b]"
    by (simp add: text_b_def trim_def is_space_def)
  have e: "\<not> is_json sample_platform ''oops''" "is_json sample_platform text_b"
    by (simp_all add: is_json_def sample_defs)
  have f: "stdout fresh = []"
    by (simp add: fresh_def)
  from C7_success_body_forwarded [where up = "\<lambda>hist. Response ?res" and P = sample_platform
      and cfg = sample_config and jsonRequest = tools_list_request and w = fresh and res = ?res
      and n = 0, OF b c]
  obtain r w' where run: "makeRequest (Suc 0) sample_platform sample_config (\<lambda>hist. Response ?res)
        tools_list_request fresh = Some (Inr r, w')"
    and two: "\<forall>l1 l2. trim l1 \<noteq> [] \<and> trim l2 \<noteq> [] \<and> CHR 0x0A \<notin> set l1 \<and> CHR 0x0A \<notin> set l2
              \<and> \<not> is_space (hd l1) \<and> \<not> is_space (last l2)
              \<and> res_data ?res = join_with [CHR 0x0A] [l1, l2]
            \<longrightarrow> (\<not> is_json sample_platform l1 \<and> is_json sample_platform l2 \<longrightarrow> stdout w' = stdout fresh @ [Raw l2])
              \<and> (is_json sample_platform l1 \<and> \<not> is_json sample_platform l2 \<longrightarrow> stdout w' = stdout fresh @ [Raw l1])"
    by (elim exE conjE)
  from two [rule_format, OF d] e f have "stdout w' = [Raw text_b]"
    by simp
  with run show "\<exists>r w'. makeRequest (Suc 0) sample_platform sample_config (\<lambda>hist. Response ?res)
        tools_list_request fresh = Some (Inr r, w') \<and> stdout w' = [Raw text_b]"
    by (intro exI conjI)
qed

section \<open>HTTP errors\<close>




text \<open>When the conversion of \<^verbatim>\<open>data.status\<close> throws inside the \<^verbatim>\<open>try\<close> block, the
  \<^verbatim>\<open>catch\<close> block appends the body to the message chosen so far.\<close>

lemma http_error_status_conversion_throws:
  "http_error sample_platform \<lparr>res_statusCode = 500, res_headers = Map.empty, res_data = text_status_bomb\<rparr>
   = Rejected \<lparr>message = ''boom: '' @ text_status_bomb, statusCode = Some 500,
               errorCode = Some (JNum ''-32000'')\<rparr>"
  by (simp add: sample_defs http_error_def error_from_json_def data_status_def
      substring0_def trim_def is_space_def Let_def)

section \<open>Recovery is not bounded\<close>

lemma outgoing_session:
  "sessionId v = sessionId w \<Longrightarrow> outgoing P cfg r v = outgoing P cfg r w"
  by (simp add: outgoing_def request_headers_def Let_def)

lemma outgoing_frame:
  "outgoing P cfg r (w\<lparr>stdout := out\<rparr>) = outgoing P cfg r w"
  "outgoing P cfg r (w\<lparr>sent := s\<rparr>) = outgoing P cfg r w"
  "outgoing P cfg r (w\<lparr>isInitialized := b\<rparr>) = outgoing P cfg r w"
  "outgoing P cfg r (w\<lparr>stdout := out, sessionId := x\<rparr>) = outgoing P cfg r (w\<lparr>sessionId := x\<rparr>)"
  "outgoing P cfg r (w\<lparr>sent := s, sessionId := x\<rparr>) = outgoing P cfg r (w\<lparr>sessionId := x\<rparr>)"
  "outgoing P cfg r (w\<lparr>isInitialized := b, sessionId := x\<rparr>) = outgoing P cfg r (w\<lparr>sessionId := x\<rparr>)"
  by (simp_all add: outgoing_def request_headers_def Let_def)

lemma isInitialize_initRequest: "isInitialize initRequest"
  by (simp add: isInitialize_def initRequest_def)

lemma body_outgoing: "body (outgoing P cfg r w) = r"
  by (simp add: outgoing_def)

lemma expiring_upstream_never_settles:
  "\<not> isInitialize jsonRequest \<Longrightarrow> str_truthy (sessionId w) \<Longrightarrow>
   makeRequest n P cfg expiring_upstream jsonRequest w = None"
proof (induction n arbitrary: w)
  case 0
  then show ?case by (simp add: outgoing_frame isInitialize_initRequest body_outgoing)
next
  case (Suc n)
  let ?h1 = "sent w @ [outgoing P cfg jsonRequest w]"
  let ?wc = "w\<lparr>sent := ?h1, sessionId := None, isInitialized := False\<rparr>"
  let ?r1 = "\<lparr>res_statusCode = 404, res_headers = map_of [], res_data = []\<rparr>"
  have u1: "expiring_upstream ?h1 = Response ?r1"
    using Suc.prems(1) by (simp add: outgoing_frame isInitialize_initRequest body_outgoing expiring_upstream_def reply_def)
  have step: "makeRequest (Suc n) P cfg expiring_upstream jsonRequest w =
      reinitializeAndRetry n P cfg expiring_upstream jsonRequest ?wc"
    using u1 Suc.prems by (simp add: outgoing_frame isInitialize_initRequest body_outgoing makeRequest_expired)
  show ?case
  proof (cases n)
    case 0
    with step show ?thesis by (simp add: outgoing_frame isInitialize_initRequest body_outgoing reinitializeAndRetry.simps)
  next
    case (Suc m)
    let ?h2 = "?h1 @ [outgoing P cfg initRequest ?wc]"
    let ?r2 = "\<lparr>res_statusCode = 200, res_headers = map_of [(''mcp-session-id'', ''S'')], res_data = []\<rparr>"
    let ?w2 = "?wc\<lparr>sent := ?h2, sessionId := Some ''S'', isInitialized := True\<rparr>"
    have u2: "expiring_upstream (sent ?wc @ [outgoing P cfg initRequest ?wc]) = Response ?r2"
      by (simp add: outgoing_frame isInitialize_initRequest body_outgoing expiring_upstream_def reply_def)
    have nf: "\<not> (res_statusCode ?r2 = 404 \<and> str_truthy (sessionId ?wc) \<and> \<not> isInitialize initRequest)"
      by (simp add: outgoing_frame isInitialize_initRequest body_outgoing)
    have "makeRequest (Suc m) P cfg expiring_upstream initRequest ?wc = Some (Inr Null, ?w2)"
      by (simp add: outgoing_frame isInitialize_initRequest body_outgoing makeRequest_plain [where up = expiring_upstream and w = "?wc" and P = P and cfg = cfg
            and jsonRequest = initRequest and res = "?r2" and n = m, OF u2 nf]
          Let_def on_response_def sessionHeader_def js_or_def)
    moreover have "makeRequest (Suc m) P cfg expiring_upstream jsonRequest ?w2 = None"
      using Suc.IH [of ?w2] Suc.prems(1) \<open>n = Suc m\<close> by (simp add: outgoing_frame isInitialize_initRequest body_outgoing)
    ultimately have "reinitializeAndRetry n P cfg expiring_upstream jsonRequest ?wc = None"
      using \<open>n = Suc m\<close> by (simp add: outgoing_frame isInitialize_initRequest body_outgoing reinitializeAndRetry.simps)
    with step show ?thesis by (simp add: outgoing_frame isInitialize_initRequest body_outgoing)
  qed
qed

text \<open>
  Claim C1, as amended. A 404 for a call other than initialize starts the recovery
  whenever a session token is held, also when it answers the request sent again by a
  recovery. When the synthetic initialize succeeded without storing a token, a 404 for
  the request sent again starts no further recovery: it rejects the promise with the
  HTTP error after three requests in all. When the synthetic initialize stored a token,
  such a 404 starts the recovery again, and nothing bounds the repetition: against an
  upstream that answers every initialize with status 200 and a session header and every
  other request with 404, no amount of fuel lets the promise settle.
\<close>

theorem C1_recovery_repeats:
  assumes "\<not> isInitialize jsonRequest" and "str_truthy (sessionId w)"
  shows "(\<forall>n. makeRequest n P cfg expiring_upstream jsonRequest w = None)
     \<and> (\<forall>up r1 r2 r3 n.
          up (sent w @ [outgoing P cfg jsonRequest w]) = Response r1 \<and> res_statusCode r1 = 404
          \<and> up (sent w @ [outgoing P cfg jsonRequest w, outgoing P cfg initRequest (w\<lparr>sessionId := None\<rparr>)])
              = Response r2
          \<and> 200 \<le> res_statusCode r2 \<and> res_statusCode r2 < 300 \<and> \<not> str_truthy (sessionHeader r2)
          \<and> up (sent w @ [outgoing P cfg jsonRequest w, outgoing P cfg initRequest (w\<lparr>sessionId := None\<rparr>),
                           outgoing P cfg jsonRequest (w\<lparr>sessionId := None\<rparr>)])
              = Response r3
          \<and> res_statusCode r3 = 404
          \<longrightarrow> (\<exists>w'. makeRequest (Suc (Suc n)) P cfg up jsonRequest w = Some (Inl (http_error P r3), w')
                 \<and> sent w' = sent w @ [outgoing P cfg jsonRequest w,
                                        outgoing P cfg initRequest (w\<lparr>sessionId := None\<rparr>),
                                        outgoing P cfg jsonRequest (w\<lparr>sessionId := None\<rparr>)]
                 \<and> sessionId w' = None \<and> \<not> isInitialized w'))"
proof (intro conjI allI impI)
  fix n
  from assms show "makeRequest n P cfg expiring_upstream jsonRequest w = None"
    by (rule expiring_upstream_never_settles)
next
  fix up r1 r2 r3 n
  let ?rq1 = "outgoing P cfg jsonRequest w"
  let ?rq2 = "outgoing P cfg initRequest (w\<lparr>sessionId := None\<rparr>)"
  let ?rq3 = "outgoing P cfg jsonRequest (w\<lparr>sessionId := None\<rparr>)"
  assume h: "up (sent w @ [?rq1]) = Response r1 \<and> res_statusCode r1 = 404
          \<and> up (sent w @ [?rq1, ?rq2]) = Response r2
          \<and> 200 \<le> res_statusCode r2 \<and> res_statusCode r2 < 300 \<and> \<not> str_truthy (sessionHeader r2)
          \<and> up (sent w @ [?rq1, ?rq2, ?rq3]) = Response r3
          \<and> res_statusCode r3 = 404"
  let ?wc = "w\<lparr>sent := sent w @ [?rq1], sessionId := None, isInitialized := False\<rparr>"
  let ?out = "map Raw (filter (is_json P) (filter (\<lambda>l. trim l \<noteq> []) (split_newline (trim (res_data r2)))))"
  let ?w2 = "?wc\<lparr>sent := sent w @ [?rq1, ?rq2], stdout := stdout w @ ?out\<rparr>"
  let ?w3 = "?w2\<lparr>sent := sent w @ [?rq1, ?rq2, ?rq3]\<rparr>"
  have q2: "outgoing P cfg initRequest ?wc = ?rq2"
    by (rule outgoing_session) (simp add: outgoing_frame isInitialize_initRequest body_outgoing)
  have q3: "outgoing P cfg jsonRequest ?w2 = ?rq3"
    by (rule outgoing_session) (simp add: outgoing_frame isInitialize_initRequest body_outgoing)
  from h assms have step1: "makeRequest (Suc (Suc n)) P cfg up jsonRequest w =
      reinitializeAndRetry (Suc n) P cfg up jsonRequest ?wc"
    by (simp add: outgoing_frame isInitialize_initRequest body_outgoing makeRequest_expired)
  have u2: "up (sent ?wc @ [outgoing P cfg initRequest ?wc]) = Response r2"
    unfolding q2 using h by (simp add: outgoing_frame isInitialize_initRequest body_outgoing)
  have nf2: "\<not> (res_statusCode r2 = 404 \<and> str_truthy (sessionId ?wc) \<and> \<not> isInitialize initRequest)"
    by (simp add: outgoing_frame isInitialize_initRequest body_outgoing)
  have step2: "makeRequest (Suc n) P cfg up initRequest ?wc =
      Some (Inr (if trim (res_data r2) = [] then Null else Data (res_data r2)), ?w2)"
    using h by (simp add: outgoing_frame isInitialize_initRequest body_outgoing makeRequest_plain [where up = up and w = "?wc" and P = P and cfg = cfg
            and jsonRequest = initRequest and res = r2 and n = n, OF u2 nf2]
          Let_def on_response_def q2)
  have u3: "up (sent ?w2 @ [outgoing P cfg jsonRequest ?w2]) = Response r3"
    unfolding q3 using h by (simp add: outgoing_frame isInitialize_initRequest body_outgoing)
  have nf3: "\<not> (res_statusCode r3 = 404 \<and> str_truthy (sessionId ?w2) \<and> \<not> isInitialize jsonRequest)"
    by (simp add: outgoing_frame isInitialize_initRequest body_outgoing)
  have "makeRequest (Suc n) P cfg up jsonRequest ?w2 =
     (let w2 = on_response (isInitialize jsonRequest) r3 (?w2\<lparr>sent := sent ?w2 @ [outgoing P cfg jsonRequest ?w2]\<rparr>)
      in if 200 \<le> res_statusCode r3 \<and> res_statusCode r3 < 300
         then Some (Inr (if trim (res_data r3) = [] then Null else Data (res_data r3)),
                    w2\<lparr>stdout := stdout w2 @ map Raw (filter (is_json P)
                           (filter (\<lambda>l. trim l \<noteq> []) (split_newline (trim (res_data r3)))))\<rparr>)
         else Some (Inl (http_error P r3), w2))"
    using u3 nf3 by (rule makeRequest_plain)
  also have "\<dots> = Some (Inl (http_error P r3), ?w3)"
    using h assms(1) by (simp add: outgoing_frame isInitialize_initRequest body_outgoing Let_def on_response_def)
  finally have step3: "makeRequest (Suc n) P cfg up jsonRequest ?w2 = Some (Inl (http_error P r3), ?w3)" .
  show "\<exists>w'. makeRequest (Suc (Suc n)) P cfg up jsonRequest w = Some (Inl (http_error P r3), w')
                 \<and> sent w' = sent w @ [?rq1, ?rq2, ?rq3]
                 \<and> sessionId w' = None \<and> \<not> isInitialized w'"
  proof (cases "http_error P r3")
    case Crashed
    note s3 = step3 [unfolded Crashed]
    have "makeRequest (Suc (Suc n)) P cfg up jsonRequest w = Some (Inl Crashed, ?w3)"
      by (simp only: step1 reinitializeAndRetry.simps step2 s3 option.case prod.case sum.case failure.case)
    with Crashed show ?thesis
      by simp
  next
    case (Rejected e)
    note s3 = step3 [unfolded Rejected]
    have "makeRequest (Suc (Suc n)) P cfg up jsonRequest w = Some (recovery_failed jsonRequest e ?w3)"
      by (simp only: step1 reinitializeAndRetry.simps step2 s3 option.case prod.case sum.case failure.case)
    with Rejected show ?thesis
      by (simp add: recovery_failed_def sendError_def)
  qed
qed


theorem C1_witness:
  "\<not> isInitialize tools_list_request
   \<and> str_truthy (sessionId (in_session ''S1''))
   \<and> makeRequest (Suc (Suc (Suc (Suc 0)))) sample_platform sample_config expiring_upstream
        tools_list_request (in_session ''S1'') = None
   \<and> (\<exists>w'. makeRequest (Suc (Suc 0)) sample_platform sample_config
          (replay [reply 404 [] [], reply 200 [] [], reply 404 [] ''gone''])
          tools_list_request (in_session ''S1'')
        = Some (Inl (http_error sample_platform
                       \<lparr>res_statusCode = 404, res_headers = map_of [], res_data = ''gone''\<rparr>), w')
      \<and> map body (sent w') = [tools_list_request, initRequest, tools_list_request]
      \<and> sessionId w' = None)"
proof -
  let ?up = "replay [reply 404 [] [], reply 200 [] [], reply 404 [] ''gone'']"
  let ?w = "in_session ''S1''"
  let ?r1 = "\<lparr>res_statusCode = 404, res_headers = map_of [], res_data = []\<rparr>"
  let ?r2 = "\<lparr>res_statusCode = 200, res_headers = map_of [], res_data = []\<rparr>"
  let ?r3 = "\<lparr>res_statusCode = 404, res_headers = map_of [], res_data = ''gone''\<rparr>"
  have a: "\<not> isInitialize tools_list_request"
    by (simp add: outgoing_frame isInitialize_initRequest body_outgoing isInitialize_def tools_list_request_def)
  have b: "str_truthy (sessionId ?w)"
    by (simp add: outgoing_frame isInitialize_initRequest body_outgoing in_session_def)
  have s: "sent ?w = []"
    by (simp add: outgoing_frame isInitialize_initRequest body_outgoing in_session_def)
  have h: "?up (sent ?w @ [outgoing sample_platform sample_config tools_list_request ?w]) = Response ?r1
        \<and> res_statusCode ?r1 = 404
        \<and> ?up (sent ?w @ [outgoing sample_platform sample_config tools_list_request ?w,
                           outgoing sample_platform sample_config initRequest (?w\<lparr>sessionId := None\<rparr>)])
            = Response ?r2
        \<and> 200 \<le> res_statusCode ?r2 \<and> res_statusCode ?r2 < 300 \<and> \<not> str_truthy (sessionHeader ?r2)
        \<and> ?up (sent ?w @ [outgoing sample_platform sample_config tools_list_request ?w,
                           outgoing sample_platform sample_config initRequest (?w\<lparr>sessionId := None\<rparr>),
                           outgoing sample_platform sample_config tools_list_request (?w\<lparr>sessionId := None\<rparr>)])
            = Response ?r3
        \<and> res_statusCode ?r3 = 404"
    by (simp add: outgoing_frame isInitialize_initRequest body_outgoing s replay_def reply_def sessionHeader_def js_or_def)
  note T = C1_recovery_repeats [where P = sample_platform and cfg = sample_config
      and jsonRequest = tools_list_request and w = ?w, OF a b]
  from T have never: "makeRequest (Suc (Suc (Suc (Suc 0)))) sample_platform sample_config expiring_upstream
        tools_list_request ?w = None"
    by (elim conjE allE)
  from T [THEN conjunct2, rule_format, of ?up ?r1 ?r2 ?r3 0, OF h]
  obtain w' where run: "makeRequest (Suc (Suc 0)) sample_platform sample_config ?up tools_list_request ?w
        = Some (Inl (http_error sample_platform ?r3), w')"
    and snt: "sent w' = sent ?w @ [outgoing sample_platform sample_config tools_list_request ?w,
                outgoing sample_platform sample_config initRequest (?w\<lparr>sessionId := None\<rparr>),
                outgoing sample_platform sample_config tools_list_request (?w\<lparr>sessionId := None\<rparr>)]"
    and tok: "sessionId w' = None"
    by (elim exE conjE)
  from snt have "map body (sent w') = [tools_list_request, initRequest, tools_list_request]"
    by (simp add: outgoing_frame isInitialize_initRequest body_outgoing s)
  with a b never run tok show ?thesis
    by (intro conjI exI)
qed

text \<open>The claim as stated fails: the request sent again by the first recovery is
  answered with 404 while the token of the synthetic initialize is held, and a second
  recovery runs. Five requests are sent for one input request, two of them synthetic
  initialize requests.\<close>

theorem C1_counterexample:
  "map_option (\<lambda>(r, w'). (map body (sent w'), stdout w', sessionId w'))
     (makeRequest (Suc (Suc (Suc 0))) sample_platform sample_config
        (replay [reply 404 [] [], reply 200 [(''mcp-session-id'', ''S2'')] [],
                 reply 404 [] [], reply 200 [(''mcp-session-id'', ''S3'')] [],
                 reply 200 [] text_a])
        tools_list_request (in_session ''S1''))
   = Some ([tools_list_request, initRequest, tools_list_request, initRequest, tools_list_request],
           [Raw text_a], Some ''S3'')"
  by (simp add: outgoing_frame isInitialize_initRequest body_outgoing makeRequest.simps reinitializeAndRetry.simps replay_def reply_def in_session_def
      tools_list_request_def initRequest_def isInitialize_def on_response_def sessionHeader_def
      js_or_def Let_def outgoing_def on_success_eq sample_defs is_json_def trim_def is_space_def)

section \<open>Errors written for one input line\<close>

text \<open>The three ways a call can fail without starting the recovery.\<close>

lemma makeRequest_fails_plainly:
  assumes "up (sent w @ [outgoing P cfg jsonRequest w]) = RequestError m
          \<and> f = Rejected \<lparr>message = m, statusCode = None, errorCode = None\<rparr>
      \<or> up (sent w @ [outgoing P cfg jsonRequest w]) = RequestTimeout
          \<and> f = Rejected \<lparr>message = ''Request timeout'', statusCode = None, errorCode = None\<rparr>
      \<or> (\<exists>res. up (sent w @ [outgoing P cfg jsonRequest w]) = Response res
            \<and> \<not> (200 \<le> res_statusCode res \<and> res_statusCode res < 300)
            \<and> \<not> (res_statusCode res = 404 \<and> str_truthy (sessionId w))
            \<and> \<not> isInitialize jsonRequest \<and> f = http_error P res)"
  shows "makeRequest (Suc n) P cfg up jsonRequest w =
           Some (Inl f, w\<lparr>sent := sent w @ [outgoing P cfg jsonRequest w]\<rparr>)"
  using assms
  by (auto simp: makeRequest_error makeRequest_timeout makeRequest_plain Let_def on_response_def)

text \<open>A request (method present, id present and not null, 0 and the empty string
  included) whose promise is rejected without recovery is answered with one error
  object, which carries the request's id.\<close>

lemma request_failure_written_once:
  assumes "trim line \<noteq> []" and "JSON_parse P line = Inr jsonRequest"
    and "js_get jsonRequest ''jsonrpc'' = Some (JStr ''2.0'')"
    and "truthy (js_get jsonRequest ''method'')"
    and "js_get jsonRequest ''id'' = Some i" and "i \<noteq> JNull"
    and "up (sent w @ [outgoing P cfg jsonRequest w]) = RequestError m
          \<and> e = \<lparr>message = m, statusCode = None, errorCode = None\<rparr>
      \<or> up (sent w @ [outgoing P cfg jsonRequest w]) = RequestTimeout
          \<and> e = \<lparr>message = ''Request timeout'', statusCode = None, errorCode = None\<rparr>
      \<or> (\<exists>res. up (sent w @ [outgoing P cfg jsonRequest w]) = Response res
            \<and> \<not> (200 \<le> res_statusCode res \<and> res_statusCode res < 300)
            \<and> \<not> (res_statusCode res = 404 \<and> str_truthy (sessionId w))
            \<and> \<not> isInitialize jsonRequest \<and> http_error P res = Rejected e)"
  shows "on_line (Suc n) P cfg up line w =
           Some (Handled (w\<lparr>sent := sent w @ [outgoing P cfg jsonRequest w],
                   stdout := stdout w @
                     [Stringified (error_response (errorCode_or_default e)
                        (if message e \<noteq> [] then message e else ''Request failed'') i)]\<rparr>))"
proof -
  from assms(5) have "jsonRequest \<noteq> JNull" by auto
  moreover from assms(7) have "makeRequest (Suc n) P cfg up jsonRequest w =
           Some (Inl (Rejected e), w\<lparr>sent := sent w @ [outgoing P cfg jsonRequest w]\<rparr>)"
    by (intro makeRequest_fails_plainly) auto
  ultimately show ?thesis using assms(1-6)
    by (cases jsonRequest) (simp_all add: on_line_def request_failed_def sendError_def id_or_null_def)
qed

lemma request_failure_written_once_example:
  "on_line (Suc 0) sample_platform sample_config (\<lambda>hist. RequestError ''ECONNREFUSED'') text_ping fresh
   = Some (Handled (fresh\<lparr>sent := [outgoing sample_platform sample_config ping_request fresh],
        stdout := [Stringified (error_response (JNum ''-32000'') ''ECONNREFUSED'' (JNum ''0''))]\<rparr>))"
proof -
  have "on_line (Suc 0) sample_platform sample_config (\<lambda>hist. RequestError ''ECONNREFUSED'') text_ping fresh
   = Some (Handled (fresh\<lparr>sent := sent fresh @ [outgoing sample_platform sample_config ping_request fresh],
        stdout := stdout fresh @
          [Stringified (error_response
             (errorCode_or_default \<lparr>message = ''ECONNREFUSED'', statusCode = None, errorCode = None\<rparr>)
             (if message \<lparr>message = ''ECONNREFUSED'', statusCode = None, errorCode = None\<rparr> \<noteq> []
              then message \<lparr>message = ''ECONNREFUSED'', statusCode = None, errorCode = None\<rparr>
              else ''Request failed'') (JNum ''0''))]\<rparr>))"
    by (rule request_failure_written_once [where m = "''ECONNREFUSED''"])
       (simp_all add: sample_defs ping_request_def trim_def is_space_def)
  then show ?thesis
    by (simp add: fresh_def errorCode_or_default_def)
qed

text \<open>
  Claim C2 fails on the code. A request whose recovery fails is answered with two error
  objects: \<^verbatim>\<open>reinitializeAndRetry\<close> writes one and throws the error again, and the
  handler of the line writes another. Here \<^verbatim>\<open>tools/list\<close> with id 7 gets a 404 while the
  token S1 is held, and the synthetic initialize gets a 500.
\<close>

theorem C2_recovery_failure_written_twice:
  "on_line (Suc (Suc 0)) sample_platform sample_config
     (replay [reply 404 [] [], reply 500 [] ''down'']) text_request (in_session ''S1'')
   = Some (Handled
       \<lparr>sessionId = None, isInitialized = False,
        stdout =
          [Stringified (error_response (JNum ''-32000'')
             ''Session expired and re-initialization failed: HTTP 500: down'' (JNum ''7'')),
           Stringified (error_response (JNum ''-32000'') ''HTTP 500: down'' (JNum ''7''))],
        sent =
          [outgoing sample_platform sample_config tools_list_request (in_session ''S1''),
           outgoing sample_platform sample_config initRequest fresh]\<rparr>)"
  by (simp add: on_line_def makeRequest.simps reinitializeAndRetry.simps replay_def reply_def
      in_session_def fresh_def sample_defs tools_list_request_def initRequest_def isInitialize_def
      on_response_def sessionHeader_def js_or_def Let_def outgoing_def request_headers_def
      recovery_failed_def request_failed_def sendError_def errorCode_or_default_def id_or_null_def
      http_error_def error_from_text_def substring0_def trim_def is_space_def
      show_nat.simps digit_char_def)

section \<open>Notifications\<close>




text \<open>Beyond the amended claim: when the recovery started by a notification's 404 fails,
  \<^verbatim>\<open>reinitializeAndRetry\<close> writes an error object with id null, although the handler
  of the line drops the error.\<close>

lemma notification_recovery_failure_written:
  "map_option (\<lambda>r. case r of Handled w' \<Rightarrow> stdout w' | Uncaught w' \<Rightarrow> stdout w')
     (on_line (Suc (Suc 0)) sample_platform sample_config
        (replay [reply 404 [] [], reply 500 [] ''down'']) text_notification (in_session ''S1''))
   = Some [Stringified (error_response (JNum ''-32000'')
             ''Session expired and re-initialization failed: HTTP 500: down'' JNull)]"
  by (simp add: on_line_def makeRequest.simps reinitializeAndRetry.simps replay_def reply_def
      in_session_def sample_defs initialized_notification_def initRequest_def isInitialize_def
      on_response_def sessionHeader_def js_or_def Let_def outgoing_def
      recovery_failed_def sendError_def errorCode_or_default_def id_or_null_def
      http_error_def error_from_text_def substring0_def trim_def is_space_def
      show_nat.simps digit_char_def)

end
